theory Spec2Isabelle
  imports Complex_Main "HOL-Library.Sublist"
begin

section \<open>Python values shared by the modules\<close>

text \<open>
  Exceptions are values: every \<open>raise\<close> of the source is an \<open>Inl\<close> of this type.
  Python floats are idealised as exact rationals (\<open>0.5\<close> is \<open>5 / 10\<close>), Python's
  unbounded integers are \<open>int\<close> or, for counters that only grow from zero, \<open>nat\<close>.
\<close>

datatype error =
    ValueError string
  | RuntimeError string
  | TypeError string
  | AttributeError string
  | KeyError string
  | IntegrityError string
  | ValidationError string "string list"

text \<open>
  The values a JSON body or an untyped dict entry (\<open>Any\<close>) can hold, and the truth value that
  \<open>if x\<close> and \<open>not x\<close> give them.
\<close>

datatype pyvalue =
    PyNone
  | PyBool bool
  | PyInt int
  | PyFloat rat
  | PyStr string
  | PyList "pyvalue list"
  | PyDict "(string \<times> pyvalue) list"

fun truthy :: "pyvalue \<Rightarrow> bool" where
  "truthy PyNone = False"
| "truthy (PyBool b) = b"
| "truthy (PyInt i) = (i \<noteq> 0)"
| "truthy (PyFloat x) = (x \<noteq> 0)"
| "truthy (PyStr s) = (s \<noteq> [])"
| "truthy (PyList xs) = (xs \<noteq> [])"
| "truthy (PyDict items) = (items \<noteq> [])"

subsection \<open>Formatting integers\<close>

definition digit_char :: "nat \<Rightarrow> char" where
  "digit_char d = ''0123456789'' ! d"

text \<open>\<open>str(n)\<close> for a non-negative integer.\<close>

function str_nat :: "nat \<Rightarrow> string" where
  "str_nat n = (if n < 10 then [digit_char n] else str_nat (n div 10) @ [digit_char (n mod 10)])"
  by pat_completeness auto
termination
  by (relation "measure id") auto

declare str_nat.simps [simp del]

text \<open>The format specification \<open>0Wd\<close>: zero padding up to a minimum width.\<close>

definition zero_pad :: "nat \<Rightarrow> string \<Rightarrow> string" where
  "zero_pad w s = replicate (w - length s) CHR ''0'' @ s"

definition digit_val :: "char \<Rightarrow> nat" where
  "digit_val c = of_char c - 48"

text \<open>\<open>int(s)\<close> for a string of decimal digits.\<close>

definition nat_of_digits :: "string \<Rightarrow> nat" where
  "nat_of_digits s = foldl (\<lambda>a c. 10 * a + digit_val c) 0 s"

text \<open>\<open>repr\<close> of a list of plain strings, as an f-string prints it.\<close>

definition repr_str :: "string \<Rightarrow> string" where
  "repr_str s = CHR 0x27 # s @ [CHR 0x27]"

fun join :: "string \<Rightarrow> string list \<Rightarrow> string" where
  "join sep [] = []"
| "join sep [s] = s"
| "join sep (s # t # ss) = s @ sep @ join sep (t # ss)"

text \<open>\<open>d.get(key, default)\<close> on an entry that may be absent.\<close>

definition get_or :: "'a option \<Rightarrow> 'a \<Rightarrow> 'a" where
  "get_or entry dflt = (case entry of None \<Rightarrow> dflt | Some v \<Rightarrow> v)"

definition repr_list :: "string list \<Rightarrow> string" where
  "repr_list ss = ''['' @ join '', '' (map repr_str ss) @ '']''"

text \<open>\<open>str(e)\<close>; for a pydantic validation error the messages of the failed validators.\<close>

fun str_error :: "error \<Rightarrow> string" where
  "str_error (ValueError m) = m"
| "str_error (RuntimeError m) = m"
| "str_error (TypeError m) = m"
| "str_error (AttributeError m) = m"
| "str_error (KeyError k) = repr_str k"
| "str_error (IntegrityError m) = m"
| "str_error (ValidationError model msgs) = concat (map (\<lambda>m. m @ ''; '') msgs) @ ''for '' @ model"

section \<open>sandbox/portal.py\<close>

record SandboxJobPortal =
  app_counter :: nat

record submission =
  status :: string
  receipt_id :: string

text \<open>\<open>SandboxJobPortal()\<close>\<close>

definition new_portal :: SandboxJobPortal where
  "new_portal = \<lparr>app_counter = 0\<rparr>"

definition required_fields :: "string list" where
  "required_fields = [''job_id'', ''student_id'', ''content'']"

definition FAILURE_RATE :: rat where
  "FAILURE_RATE = 5 / 100"

text \<open>
  The application is a dict, here its items in order. The second argument is the value
  that \<open>random.random()\<close> returns in this call; it is only drawn when no field is missing.
\<close>

definition missing_fields :: "(string \<times> 'v) list \<Rightarrow> string list" where
  "missing_fields application = filter (\<lambda>field. field \<notin> set (map fst application)) required_fields"

definition submit_application ::
  "SandboxJobPortal \<Rightarrow> (string \<times> 'v) list \<Rightarrow> rat \<Rightarrow> SandboxJobPortal \<times> (error + submission)" where
  "submit_application self application draw =
     (let missing = missing_fields application in
      if missing \<noteq> [] then
        (self, Inl (ValueError (''Missing required application field(s): '' @ repr_list missing)))
      else if draw < FAILURE_RATE then
        (self, Inl (RuntimeError ''Submission failed due to random rejection (sandbox mode).''))
      else
        let self' = self\<lparr>app_counter := app_counter self + 1\<rparr>;
            receipt = ''sandbox-'' @ zero_pad 6 (str_nat (app_counter self'))
        in (self', Inr \<lparr>status = ''submitted'', receipt_id = receipt\<rparr>))"

text \<open>A sequence of calls on one portal instance, with the outcome of each call.\<close>

fun submit_all ::
  "SandboxJobPortal \<Rightarrow> ((string \<times> 'v) list \<times> rat) list \<Rightarrow> SandboxJobPortal \<times> (error + submission) list" where
  "submit_all self [] = (self, [])"
| "submit_all self ((application, draw) # calls) =
     (case submit_application self application draw of
        (self', out) \<Rightarrow> (case submit_all self' calls of (self'', outs) \<Rightarrow> (self'', out # outs)))"

definition receipts :: "(error + submission) list \<Rightarrow> string list" where
  "receipts outs = concat (map (\<lambda>out. case out of Inl e \<Rightarrow> [] | Inr s \<Rightarrow> [receipt_id s]) outs)"

text \<open>The number a receipt id carries after its \<open>sandbox-\<close> prefix.\<close>

definition receipt_number :: "string \<Rightarrow> nat" where
  "receipt_number r = nat_of_digits (drop 8 r)"

section \<open>schemas/student\_schema.py and schemas/job\_schema.py\<close>

text \<open>
  The validated pydantic models. Their validators are the functions \<open>validate_student\<close> and
  \<open>validate_job\<close> of the engine section, which build these records from the raw dicts.
\<close>

record Proof =
  proof_type :: string
  url :: string

record Constraints =
  max_apps_per_day :: int
  min_match_score :: rat
  blocked_companies :: "string list"

record Bullet =
  description :: string
  skills :: "string list"
  verified :: bool
  proofs :: "Proof list option"

record Project =
  project_name :: string
  project_description :: string
  project_skills :: "string list"
  bullets :: "Bullet list"

record Education =
  institution :: string
  degree :: "string option"
  field_of_study :: "string option"

record StudentArtifactPack =
  source_resume_hash :: string
  skill_vocab :: "string list"
  education :: "Education list"
  projects :: "Project list"
  constraints :: "Constraints option"

record JobListing =
  job_id :: string
  company :: string
  role :: string
  location :: string
  required_skills :: "string list"
  min_experience_years :: int

section \<open>core/scorer.py\<close>

record score_explanation =
  skill_overlap :: rat
  experience_fit :: rat
  constraint_match :: rat
  final_score :: rat

record score_result =
  score :: rat
  explanation :: score_explanation

definition score_job_match :: "StudentArtifactPack \<Rightarrow> JobListing \<Rightarrow> score_result" where
  "score_job_match student job =
     (let required = set (required_skills job);
          student_skills = set (skill_vocab student);
          overlap = (if required = {} then 1
                     else of_nat (card (required \<inter> student_skills)) / of_nat (card required));
          fit = (if min_experience_years job = 0 then 1 else 0);
          cmatch = 1;
          raw = 5 / 10 * overlap + 3 / 10 * fit + 2 / 10 * cmatch;
          clamped = max 0 (min 1 raw)
      in \<lparr>score = clamped,
          explanation = \<lparr>skill_overlap = overlap, experience_fit = fit,
                         constraint_match = cmatch, final_score = clamped\<rparr>\<rparr>)"

section \<open>core/generator.py\<close>

record application_content =
  selected_bullets :: "Bullet list"
  cover_paragraph :: string
  answers :: "(string \<times> string) list"

text \<open>The two nested loops that collect \<open>relevant_verified_bullets\<close>.\<close>

definition relevant_verified_bullets :: "StudentArtifactPack \<Rightarrow> JobListing \<Rightarrow> Bullet list" where
  "relevant_verified_bullets student job =
     concat (map (\<lambda>project.
               filter (\<lambda>bullet. set (skills bullet) \<inter> set (required_skills job) \<noteq> {})
                 (bullets project))
             (projects student))"

text \<open>The paragraph is composed before the list is cut to three bullets, as in the source.\<close>

definition generate_application_content ::
  "StudentArtifactPack \<Rightarrow> JobListing \<Rightarrow> application_content option \<times> string option" where
  "generate_application_content student job =
     (let relevant = relevant_verified_bullets student job in
      if relevant = [] then (None, Some ''NO_RELEVANT_VERIFIED_BULLETS'')
      else
        let bullet_descriptions = map description relevant;
            bullet_summary = join '', '' bullet_descriptions;
            cover = ''I am applying for the '' @ role job
                    @ '' position. My background includes '' @ bullet_summary @ ''.'';
            capped = take 3 relevant
        in (Some \<lparr>selected_bullets = capped, cover_paragraph = cover, answers = []\<rparr>, None))"

section \<open>backend/models.py\<close>

subsection \<open>The wrapped pack, a dict\<close>

text \<open>
  The packs that drafts and snapshots wrap are plain dicts (\<open>Dict[str, Any]\<close>), read with
  \<open>.get(key, default)\<close>. A dict is modelled as a record of optional entries, \<open>None\<close> for a key
  that is absent; the entries that are present have the types the execution format gives
  them, except the \<open>verified\<close> flag of a bullet: it is whatever value the confirmation
  carried, and the validators below only test its truth value.
\<close>

record bullet_dict =
  bd_description :: "string option"
  bd_skills :: "string list option"
  bd_verified :: "pyvalue option"
  bd_proofs :: "Proof list option"

record project_dict =
  pd_name :: "string option"
  pd_description :: "string option"
  pd_skills :: "string list option"
  pd_bullets :: "bullet_dict list option"

record pack_dict =
  pk_source_resume_hash :: "string option"
  pk_skill_vocab :: "string list option"
  pk_education :: "Education list option"
  pk_projects :: "project_dict list option"
  pk_constraints :: "Constraints option"

text \<open>The keys of a pack (\<open>field in v\<close>).\<close>

definition pack_keys :: "pack_dict \<Rightarrow> string list" where
  "pack_keys v =
     (if pk_source_resume_hash v = None then [] else [''source_resume_hash''])
     @ (if pk_skill_vocab v = None then [] else [''skill_vocab''])
     @ (if pk_education v = None then [] else [''education''])
     @ (if pk_projects v = None then [] else [''projects''])
     @ (if pk_constraints v = None then [] else [''constraints''])"

text \<open>
  The bullets in the order of the loops
  \<open>for project in v.get('projects', []): for bullet in project.get('bullets', [])\<close>.
\<close>

definition pack_bullets :: "pack_dict \<Rightarrow> bullet_dict list" where
  "pack_bullets v =
     concat (map (\<lambda>project. get_or (pd_bullets project) []) (get_or (pk_projects v) []))"

subsection \<open>UserConfirmation\<close>

record bullet_verification =
  bullet_id :: string
  bv_verified :: pyvalue
  user_modified :: "bool option"

record UserConfirmation =
  bullets_verified :: "bullet_verification list"
  accuracy_confirmed :: bool
  confirmation_timestamp :: string

subsection \<open>ArtifactSnapshot\<close>

record approval_metadata_dict =
  am_user_confirmation :: "UserConfirmation option"
  am_verification_count :: "nat option"
  am_modified_bullets :: "string list option"

record ArtifactSnapshot =
  snapshot_id :: string
  snapshot_user_id :: int
  student_artifact_pack :: pack_dict
  approved_at :: nat
  snapshot_resume_hash :: string
  snapshot_profile_hash :: string
  frozen :: bool
  approval_metadata :: approval_metadata_dict

text \<open>Each validator returns the message of the \<open>ValueError\<close> it raises, if it raises.\<close>

definition validate_frozen_always_true :: "bool \<Rightarrow> string option" where
  "validate_frozen_always_true v =
     (if \<not> v then Some ''ArtifactSnapshot must always be frozen (frozen: true)'' else None)"

definition validate_student_artifact_pack_structure :: "pack_dict \<Rightarrow> string option" where
  "validate_student_artifact_pack_structure v =
     (case find (\<lambda>field. field \<notin> set (pack_keys v))
             [''source_resume_hash'', ''skill_vocab'', ''education'', ''projects''] of
        Some field \<Rightarrow> Some (''StudentArtifactPack missing required field: '' @ field)
      | None \<Rightarrow>
          (case find (\<lambda>bullet. \<not> truthy (get_or (bd_verified bullet) (PyBool False))) (pack_bullets v) of
             Some bullet \<Rightarrow> Some ''All bullets in approved ArtifactSnapshot must be verified: true''
           | None \<Rightarrow> None))"

definition metadata_keys :: "approval_metadata_dict \<Rightarrow> string list" where
  "metadata_keys v =
     (if am_user_confirmation v = None then [] else [''user_confirmation''])
     @ (if am_verification_count v = None then [] else [''verification_count''])
     @ (if am_modified_bullets v = None then [] else [''modified_bullets''])"

definition validate_approval_metadata :: "approval_metadata_dict \<Rightarrow> string option" where
  "validate_approval_metadata v =
     (case find (\<lambda>field. field \<notin> set (metadata_keys v)) [''user_confirmation'', ''verification_count''] of
        Some field \<Rightarrow> Some (''Approval metadata missing required field: '' @ field)
      | None \<Rightarrow> None)"

text \<open>
  Construction runs the validators field by field, in the order the fields are declared,
  collects the messages, and fails with one validation error when there is any.
\<close>

definition messages :: "string option list \<Rightarrow> string list" where
  "messages results = concat (map (\<lambda>r. case r of None \<Rightarrow> [] | Some m \<Rightarrow> [m]) results)"

definition new_ArtifactSnapshot ::
  "string \<Rightarrow> int \<Rightarrow> pack_dict \<Rightarrow> nat \<Rightarrow> string \<Rightarrow> string \<Rightarrow> bool \<Rightarrow> approval_metadata_dict
     \<Rightarrow> error + ArtifactSnapshot" where
  "new_ArtifactSnapshot sid uid pack ts resume_hash profile_hash frz meta =
     (let errors = messages [validate_student_artifact_pack_structure pack,
                             validate_frozen_always_true frz,
                             validate_approval_metadata meta]
      in if errors \<noteq> [] then Inl (ValidationError ''ArtifactSnapshot'' errors)
         else Inr \<lparr>snapshot_id = sid, snapshot_user_id = uid, student_artifact_pack = pack,
                   approved_at = ts, snapshot_resume_hash = resume_hash,
                   snapshot_profile_hash = profile_hash, frozen = frz,
                   approval_metadata = meta\<rparr>)"

subsection \<open>DraftArtifactPack\<close>

record DraftArtifactPack =
  draft_pack :: pack_dict
  draft_status :: string
  created_at :: nat
  source_profile_hash :: string

definition validate_status_is_draft :: "string \<Rightarrow> string option" where
  "validate_status_is_draft v =
     (if v \<noteq> ''DRAFT'' then Some ''DraftArtifactPack status must always be \"DRAFT\"'' else None)"

definition validate_no_verified_bullets :: "pack_dict \<Rightarrow> string option" where
  "validate_no_verified_bullets v =
     (case find (\<lambda>bullet. truthy (get_or (bd_verified bullet) (PyBool False))) (pack_bullets v) of
        Some bullet \<Rightarrow> Some ''Draft artifacts cannot contain verified: true bullets''
      | None \<Rightarrow> None)"

definition new_DraftArtifactPack :: "pack_dict \<Rightarrow> string \<Rightarrow> nat \<Rightarrow> string \<Rightarrow> error + DraftArtifactPack" where
  "new_DraftArtifactPack pack st ts profile_hash =
     (let errors = messages [validate_no_verified_bullets pack, validate_status_is_draft st]
      in if errors \<noteq> [] then Inl (ValidationError ''DraftArtifactPack'' errors)
         else Inr \<lparr>draft_pack = pack, draft_status = st, created_at = ts,
                   source_profile_hash = profile_hash\<rparr>)"

section \<open>backend/database.py\<close>

text \<open>
  The state of \<open>PersistentDatabase\<close>: one list of rows per table that the workflow touches.
  \<open>AUTOINCREMENT\<close> keys come from a counter per table, \<open>CURRENT_TIMESTAMP\<close> from the field
  \<open>db_now\<close>. JSON columns hold the value that \<open>json.dumps\<close> was given.
\<close>

text \<open>The dict that \<open>get_job_by_id\<close> returns: the six listing fields and five more keys.\<close>

record job_dict =
  jd_job_id :: string
  jd_company :: string
  jd_role :: string
  jd_location :: string
  jd_required_skills :: "string list"
  jd_min_experience_years :: int
  jd_extra_keys :: "string list"

record job_row =
  jr_job_id :: string
  jr_company :: string
  jr_role :: string
  jr_location :: string
  jr_required_skills :: "string list"
  jr_min_experience_years :: int
  jr_is_active :: bool

record summary_dict =
  queued :: nat
  skipped :: nat
  submitted :: nat
  retried :: nat
  failed :: nat

record run_row =
  run_id :: nat
  run_user_id :: int
  run_profile_snapshot :: "pack_dict option"
  run_job_ids :: "string list"
  run_status :: string
  run_summary_data :: "summary_dict option"
  run_log_path :: "string option"

record application_dict =
  ad_job_id :: string
  ad_status :: string
  ad_reason :: "string option"
  ad_receipt_id :: "string option"
  ad_timestamp :: rat

record history_row =
  hr_user_id :: int
  hr_run_id :: nat
  hr_job_id :: string
  hr_company :: string
  hr_role :: string
  hr_status :: string
  hr_skip_reason :: "string option"
  hr_receipt_id :: "string option"
  hr_timestamp :: rat

record draft_row =
  dr_id :: string
  dr_user_id :: int
  dr_student_artifact_pack :: pack_dict
  dr_source_profile_hash :: string

record snapshot_row =
  sr_id :: string
  sr_user_id :: int
  sr_student_artifact_pack :: pack_dict
  sr_approved_at :: nat
  sr_source_resume_hash :: string
  sr_source_profile_hash :: string
  sr_approval_metadata :: approval_metadata_dict
  sr_integrity_hash :: string

record database =
  job_listings :: "job_row list"
  autopilot_runs :: "run_row list"
  next_run_id :: nat
  application_history :: "history_row list"
  draft_artifacts :: "draft_row list"
  artifact_snapshots :: "snapshot_row list"
  db_now :: nat

text \<open>\<open>SELECT \<dots> FROM job_listings WHERE job_id = ? AND is_active = TRUE\<close>, first row.\<close>

definition get_job_by_id :: "database \<Rightarrow> string \<Rightarrow> job_dict option" where
  "get_job_by_id db jid =
     (case find (\<lambda>row. jr_job_id row = jid \<and> jr_is_active row) (job_listings db) of
        None \<Rightarrow> None
      | Some row \<Rightarrow>
          Some \<lparr>jd_job_id = jr_job_id row, jd_company = jr_company row, jd_role = jr_role row,
                jd_location = jr_location row, jd_required_skills = jr_required_skills row,
                jd_min_experience_years = jr_min_experience_years row,
                jd_extra_keys = [''description'', ''salary_range'', ''job_type'',
                                 ''posted_date'', ''expires_date'']\<rparr>)"

text \<open>
  \<open>create_autopilot_run(self, user_id, job_ids)\<close>: the parameter names that a call may give
  as keywords, and the insert. The profile snapshot column is written as the empty object.
\<close>

definition create_autopilot_run_params :: "string list" where
  "create_autopilot_run_params = [''user_id'', ''job_ids'']"

definition create_autopilot_run :: "database \<Rightarrow> int \<Rightarrow> string list \<Rightarrow> database \<times> nat" where
  "create_autopilot_run db uid jids =
     (let rid = next_run_id db;
          row = \<lparr>run_id = rid, run_user_id = uid, run_profile_snapshot = None, run_job_ids = jids,
                 run_status = ''running'', run_summary_data = None, run_log_path = None\<rparr>
      in (db\<lparr>autopilot_runs := autopilot_runs db @ [row], next_run_id := rid + 1\<rparr>, rid))"

text \<open>
  How Python binds a call that passes keyword arguments only to a method with the given
  parameters, none of which has a default: the first keyword that is no parameter, or else
  the parameters left without an argument, raise a \<open>TypeError\<close>.
\<close>

definition bind_keywords :: "string \<Rightarrow> string list \<Rightarrow> string list \<Rightarrow> error option" where
  "bind_keywords fname params keywords =
     (case filter (\<lambda>k. k \<notin> set params) keywords of
        k # _ \<Rightarrow> Some (TypeError (fname @ ''() got an unexpected keyword argument '' @ repr_str k))
      | [] \<Rightarrow>
          (case filter (\<lambda>p. p \<notin> set keywords) params of
             [] \<Rightarrow> None
           | missing \<Rightarrow> Some (TypeError (fname @ ''() missing required arguments: ''
                                           @ repr_list missing))))"

text \<open>\<open>save_application_history\<close>: company and role are looked up from the listing.\<close>

definition history_row_of :: "database \<Rightarrow> int \<Rightarrow> nat \<Rightarrow> application_dict \<Rightarrow> history_row" where
  "history_row_of db uid rid app =
     (let job_details = get_job_by_id db (ad_job_id app)
      in \<lparr>hr_user_id = uid, hr_run_id = rid, hr_job_id = ad_job_id app,
          hr_company = (case job_details of None \<Rightarrow> ''Unknown'' | Some j \<Rightarrow> jd_company j),
          hr_role = (case job_details of None \<Rightarrow> ''Unknown'' | Some j \<Rightarrow> jd_role j),
          hr_status = ad_status app, hr_skip_reason = ad_reason app,
          hr_receipt_id = ad_receipt_id app, hr_timestamp = ad_timestamp app\<rparr>)"

definition save_application_history :: "database \<Rightarrow> int \<Rightarrow> nat \<Rightarrow> application_dict list \<Rightarrow> database" where
  "save_application_history db uid rid applications =
     db\<lparr>application_history := application_history db @ map (history_row_of db uid rid) applications\<rparr>"

text \<open>\<open>complete_autopilot_run\<close>: an \<open>UPDATE \<dots> WHERE id = ?\<close>.\<close>

definition complete_autopilot_run :: "database \<Rightarrow> nat \<Rightarrow> summary_dict \<Rightarrow> string \<Rightarrow> database" where
  "complete_autopilot_run db rid summary_data log_path =
     db\<lparr>autopilot_runs :=
          map (\<lambda>row. if run_id row = rid
                      then row\<lparr>run_status := ''completed'', run_summary_data := Some summary_data,
                               run_log_path := Some log_path\<rparr>
                      else row)
              (autopilot_runs db)\<rparr>"

text \<open>
  \<open>save_artifact_snapshot\<close>: an \<open>INSERT\<close> into a table whose primary key is the id; a
  duplicate id raises, otherwise one row is inserted and the method returns \<open>True\<close>.
\<close>

definition save_artifact_snapshot ::
  "database \<Rightarrow> string \<Rightarrow> int \<Rightarrow> pack_dict \<Rightarrow> string \<Rightarrow> string \<Rightarrow> approval_metadata_dict \<Rightarrow> string
     \<Rightarrow> database \<times> (error + bool)" where
  "save_artifact_snapshot db sid uid pack resume_hash profile_hash meta integrity =
     (if sid \<in> set (map sr_id (artifact_snapshots db)) then
        (db, Inl (IntegrityError ''UNIQUE constraint failed: artifact_snapshots.id''))
      else
        (db\<lparr>artifact_snapshots := artifact_snapshots db @
              [\<lparr>sr_id = sid, sr_user_id = uid, sr_student_artifact_pack = pack,
                sr_approved_at = db_now db, sr_source_resume_hash = resume_hash,
                sr_source_profile_hash = profile_hash, sr_approval_metadata = meta,
                sr_integrity_hash = integrity\<rparr>]\<rparr>,
         Inr True))"

text \<open>
  \<open>get_current_artifact_snapshot\<close>: \<open>ORDER BY approved_at DESC LIMIT 1\<close> among the rows of
  the user. Among rows with the same timestamp SQL leaves the choice open; the model takes
  the one stored first. The dict it returns always has \<open>frozen: True\<close>.
\<close>

fun latest_row :: "snapshot_row list \<Rightarrow> snapshot_row option" where
  "latest_row [] = None"
| "latest_row (row # rows) =
     (case latest_row rows of
        None \<Rightarrow> Some row
      | Some best \<Rightarrow> if sr_approved_at best > sr_approved_at row then Some best else Some row)"

definition get_current_artifact_snapshot :: "database \<Rightarrow> int \<Rightarrow> snapshot_row option" where
  "get_current_artifact_snapshot db uid =
     latest_row (filter (\<lambda>row. sr_user_id row = uid) (artifact_snapshots db))"

definition delete_draft_artifacts :: "database \<Rightarrow> int \<Rightarrow> database" where
  "delete_draft_artifacts db uid =
     db\<lparr>draft_artifacts := filter (\<lambda>row. dr_user_id row \<noteq> uid) (draft_artifacts db)\<rparr>"

section \<open>backend/artifact\_services.py: ApprovalService\<close>

definition str_int :: "int \<Rightarrow> string" where
  "str_int i = (if i < 0 then ''-'' @ str_nat (nat (- i)) else str_nat (nat i))"

text \<open>The positional bullet id \<open>project_{i}_bullet_{j}\<close>.\<close>

definition bullet_id_of :: "nat \<Rightarrow> nat \<Rightarrow> string" where
  "bullet_id_of i j = ''project_'' @ str_nat i @ ''_bullet_'' @ str_nat j"

definition extract_bullets_from_draft :: "pack_dict \<Rightarrow> string list" where
  "extract_bullets_from_draft artifact_pack =
     concat (map (\<lambda>(i, project).
                    map (\<lambda>(j, bullet). bullet_id_of i j)
                        (enumerate 0 (get_or (pd_bullets project) [])))
                 (enumerate 0 (get_or (pk_projects artifact_pack) [])))"

definition validate_user_confirmation :: "UserConfirmation \<Rightarrow> DraftArtifactPack \<Rightarrow> error + unit" where
  "validate_user_confirmation confirmation draft =
     (if \<not> accuracy_confirmed confirmation then
        Inl (ValueError ''User must confirm accuracy checkbox'')
      else if bullets_verified confirmation = [] then
        Inl (ValueError ''User must verify at least one bullet'')
      else
        let draft_bullets = extract_bullets_from_draft (draft_pack draft);
            verified_bullet_ids = set (map bullet_id (bullets_verified confirmation))
        in case find (\<lambda>b. b \<notin> verified_bullet_ids) draft_bullets of
             Some b \<Rightarrow> Inl (ValueError (''Bullet '' @ b @ '' not verified by user''))
           | None \<Rightarrow> Inr ())"

text \<open>
  The dict comprehension \<open>{bv["bullet_id"]: bv["verified"] for bv in \<dots>}\<close>: a later entry
  for the same id replaces an earlier one.
\<close>

definition verification_lookup :: "UserConfirmation \<Rightarrow> string \<Rightarrow> pyvalue option" where
  "verification_lookup confirmation =
     map_of (rev (map (\<lambda>bv. (bullet_id bv, bv_verified bv)) (bullets_verified confirmation)))"

text \<open>
  The value of the pack that \<open>_apply_user_verifications\<close> returns. What the call does to
  the objects it was given is the subject of the store model further down.
\<close>

definition apply_user_verifications :: "pack_dict \<Rightarrow> UserConfirmation \<Rightarrow> pack_dict" where
  "apply_user_verifications draft_artifact_pack confirmation =
     draft_artifact_pack\<lparr>pk_projects :=
       map_option
         (\<lambda>ps. map (\<lambda>(i, project).
                  project\<lparr>pd_bullets :=
                    map_option
                      (\<lambda>bs. map (\<lambda>(j, bullet).
                               bullet\<lparr>bd_verified :=
                                 Some (get_or (verification_lookup confirmation (bullet_id_of i j)) (PyBool False))\<rparr>)
                             (enumerate 0 bs))
                      (pd_bullets project)\<rparr>)
                (enumerate 0 ps))
         (pk_projects draft_artifact_pack)\<rparr>"

text \<open>
  \<open>generate_integrity_hash\<close> of the snapshot model; SHA-256 and the ISO rendering of a
  timestamp are library functions and are parameters.
\<close>

definition generate_integrity_hash ::
  "(string \<Rightarrow> string) \<Rightarrow> (nat \<Rightarrow> string) \<Rightarrow> ArtifactSnapshot \<Rightarrow> string" where
  "generate_integrity_hash sha256 isoformat self =
     sha256 (str_int (snapshot_user_id self) @ '':'' @ snapshot_resume_hash self @ '':''
             @ isoformat (approved_at self))"

text \<open>
  \<open>submit_for_approval\<close>. \<open>new_uuid\<close> is the value of \<open>uuid.uuid4()\<close> and \<open>utcnow\<close> the
  time of the call. The result is the database after the call and the snapshot or the
  exception.
\<close>

definition submit_for_approval ::
  "(string \<Rightarrow> string) \<Rightarrow> (nat \<Rightarrow> string) \<Rightarrow> string \<Rightarrow> nat
     \<Rightarrow> database \<Rightarrow> DraftArtifactPack \<Rightarrow> UserConfirmation \<Rightarrow> int
     \<Rightarrow> database \<times> (error + ArtifactSnapshot)" where
  "submit_for_approval sha256 isoformat new_uuid utcnow db draft user_confirmation uid =
     (case validate_user_confirmation user_confirmation draft of
        Inl e \<Rightarrow> (db, Inl e)
      | Inr _ \<Rightarrow>
          let approved_artifact_pack = apply_user_verifications (draft_pack draft) user_confirmation;
              meta = \<lparr>am_user_confirmation = Some user_confirmation,
                      am_verification_count = Some (length (bullets_verified user_confirmation)),
                      am_modified_bullets =
                        Some (map bullet_id
                               (filter (\<lambda>bv. get_or (user_modified bv) False)
                                  (bullets_verified user_confirmation)))\<rparr>
          in case pk_source_resume_hash approved_artifact_pack of
               None \<Rightarrow> (db, Inl (KeyError ''source_resume_hash''))
             | Some resume_hash \<Rightarrow>
                 (case new_ArtifactSnapshot new_uuid uid approved_artifact_pack utcnow resume_hash
                         (source_profile_hash draft) True meta of
                    Inl e \<Rightarrow> (db, Inl e)
                  | Inr snapshot \<Rightarrow>
                      (case save_artifact_snapshot db (snapshot_id snapshot) uid approved_artifact_pack
                              (snapshot_resume_hash snapshot) (snapshot_profile_hash snapshot) meta
                              (generate_integrity_hash sha256 isoformat snapshot) of
                         (db', Inl e) \<Rightarrow> (db', Inl e)
                       | (db', Inr saved) \<Rightarrow>
                           if \<not> saved then
                             (db', Inl (RuntimeError ''Failed to save artifact snapshot to database''))
                           else (delete_draft_artifacts db' uid, Inr snapshot))))"

text \<open>\<open>get_current_approved\<close>: the stored row, put through the snapshot model again.\<close>

definition get_current_approved :: "database \<Rightarrow> int \<Rightarrow> error + ArtifactSnapshot option" where
  "get_current_approved db uid =
     (case get_current_artifact_snapshot db uid of
        None \<Rightarrow> Inr None
      | Some row \<Rightarrow>
          (case new_ArtifactSnapshot (sr_id row) uid (sr_student_artifact_pack row)
                  (sr_approved_at row) (sr_source_resume_hash row) (sr_source_profile_hash row)
                  True (sr_approval_metadata row) of
             Inl e \<Rightarrow> Inl e
           | Inr snapshot \<Rightarrow> Inr (Some snapshot)))"

section \<open>core/tracker.py and core/validator.py\<close>

text \<open>
  Modelled from the spec: core/tracker.py is not among the sources. The specification asks
  of \<open>ApplicationTracker\<close> that a tracker built with no arguments starts empty and that
  \<open>track\<close> records one event with job id, status, optional reason, optional receipt id and a
  numeric timestamp; the accumulated events are the field \<open>events\<close>. The timestamp of the
  \<open>n\<close>-th event is \<open>clock n\<close>, with the clock a parameter.
\<close>

record event =
  ev_job_id :: string
  ev_status :: string
  ev_reason :: "string option"
  ev_receipt_id :: "string option"
  ev_timestamp :: rat

record ApplicationTracker =
  events :: "event list"

definition new_tracker :: ApplicationTracker where
  "new_tracker = \<lparr>events = []\<rparr>"

definition track ::
  "(nat \<Rightarrow> rat) \<Rightarrow> ApplicationTracker \<Rightarrow> string \<Rightarrow> string \<Rightarrow> string option \<Rightarrow> string option
     \<Rightarrow> ApplicationTracker" where
  "track clock self jid st reason receipt =
     self\<lparr>events := events self @
            [\<lparr>ev_job_id = jid, ev_status = st, ev_reason = reason, ev_receipt_id = receipt,
              ev_timestamp = clock (length (events self))\<rparr>]\<rparr>"

text \<open>
  core/validator.py is not among the sources either. \<open>validate_job_for_scoring\<close> is a
  parameter of the engine: any function of the student, the job and the number of
  applications sent so far that returns \<open>(ok, reason)\<close> or raises.
\<close>

type_synonym validator = "StudentArtifactPack \<Rightarrow> JobListing \<Rightarrow> nat \<Rightarrow> error + (bool \<times> string option)"

section \<open>Schema validation of the engine's inputs\<close>

text \<open>
  \<open>StudentArtifactPack(**student_data)\<close> and \<open>JobListing(**j)\<close>. The engine turns every
  validation failure into the same kind of failure result, so the model keeps the message of
  the first check that fails. The \<open>verified\<close> flag of a bullet is a \<open>StrictBool\<close>: a value
  that is not a boolean fails validation. Dicts whose other entries have other types than
  the schema's are not represented: they fail validation or are coerced to a dict that is.
\<close>

fun validate_each :: "('a \<Rightarrow> string + 'b) \<Rightarrow> 'a list \<Rightarrow> string + 'b list" where
  "validate_each f [] = Inr []"
| "validate_each f (x # xs) =
     (case f x of
        Inl m \<Rightarrow> Inl m
      | Inr y \<Rightarrow> (case validate_each f xs of Inl m \<Rightarrow> Inl m | Inr ys \<Rightarrow> Inr (y # ys)))"

definition new_Bullet :: "bullet_dict \<Rightarrow> string + Bullet" where
  "new_Bullet d =
     (case (bd_description d, bd_skills d, bd_verified d) of
        (Some desc, Some sk, Some (PyBool v)) \<Rightarrow>
          if \<not> v then Inl ''Every bullet must have verified == true''
          else Inr \<lparr>description = desc, skills = sk, verified = v, proofs = bd_proofs d\<rparr>
      | (Some desc, Some sk, Some _) \<Rightarrow> Inl ''Input should be a valid boolean''
      | _ \<Rightarrow> Inl ''Field required'')"

definition new_Project :: "project_dict \<Rightarrow> string + Project" where
  "new_Project d =
     (case (pd_name d, pd_description d, pd_skills d, pd_bullets d) of
        (Some n, Some desc, Some sk, Some bs) \<Rightarrow>
          (case validate_each new_Bullet bs of
             Inl m \<Rightarrow> Inl m
           | Inr bullets' \<Rightarrow>
               Inr \<lparr>project_name = n, project_description = desc, project_skills = sk,
                    bullets = bullets'\<rparr>)
      | _ \<Rightarrow> Inl ''Field required'')"

text \<open>The messages of \<open>validate_all_skills_and_bullets\<close>, in the order of its loops.\<close>

definition skill_violations :: "string list \<Rightarrow> Project list \<Rightarrow> string list" where
  "skill_violations vocab ps =
     concat (map (\<lambda>project.
        map (\<lambda>s. ''Project skill '' @ repr_str s @ '' in project '' @ repr_str (project_name project)
                  @ '' is not in skill_vocab'')
            (filter (\<lambda>s. s \<notin> set vocab) (project_skills project))
        @ concat (map (\<lambda>bullet.
            map (\<lambda>s. ''Bullet skill '' @ repr_str s @ '' in project '' @ repr_str (project_name project)
                      @ '' is not in skill_vocab'')
                (filter (\<lambda>s. s \<notin> set vocab) (skills bullet)))
            (bullets project)))
       ps)"

definition new_StudentArtifactPack :: "pack_dict \<Rightarrow> error + StudentArtifactPack" where
  "new_StudentArtifactPack d =
     (case (pk_source_resume_hash d, pk_skill_vocab d, pk_education d, pk_projects d) of
        (Some h, Some vocab, Some edu, Some ps) \<Rightarrow>
          if \<not> distinct vocab then
            Inl (ValidationError ''StudentArtifactPack'' [''skill_vocab must contain only unique skills''])
          else
            (case validate_each new_Project ps of
               Inl m \<Rightarrow> Inl (ValidationError ''StudentArtifactPack'' [m])
             | Inr projects' \<Rightarrow>
                 (case skill_violations vocab projects' of
                    m # _ \<Rightarrow> Inl (ValidationError ''StudentArtifactPack'' [m])
                  | [] \<Rightarrow>
                      Inr \<lparr>source_resume_hash = h, skill_vocab = vocab, education = edu,
                           projects = projects', constraints = pk_constraints d\<rparr>))
      | _ \<Rightarrow> Inl (ValidationError ''StudentArtifactPack'' [''Field required'']))"

text \<open>\<open>JobListing\<close> forbids extra keys and negative years.\<close>

definition new_JobListing :: "job_dict \<Rightarrow> error + JobListing" where
  "new_JobListing j =
     (if jd_extra_keys j \<noteq> [] then
        Inl (ValidationError ''JobListing'' (map (\<lambda>k. k @ '': Extra inputs are not permitted'') (jd_extra_keys j)))
      else if jd_min_experience_years j < 0 then
        Inl (ValidationError ''JobListing'' [''min_experience_years must be >= 0''])
      else
        Inr \<lparr>job_id = jd_job_id j, company = jd_company j, role = jd_role j,
             location = jd_location j, required_skills = jd_required_skills j,
             min_experience_years = jd_min_experience_years j\<rparr>)"

text \<open>The loop \<open>for idx, j in enumerate(jobs_data)\<close>; a failure carries the index.\<close>

fun validate_jobs :: "nat \<Rightarrow> job_dict list \<Rightarrow> (nat \<times> error) + JobListing list" where
  "validate_jobs idx [] = Inr []"
| "validate_jobs idx (j # js) =
     (case new_JobListing j of
        Inl e \<Rightarrow> Inl (idx, e)
      | Inr job \<Rightarrow> (case validate_jobs (idx + 1) js of Inl ie \<Rightarrow> Inl ie | Inr jobs \<Rightarrow> Inr (job # jobs)))"

section \<open>backend/engine.py\<close>

text \<open>
  The format \<open>.2f\<close> on the exact value: rounding to two decimals, ties to even, the sign
  kept. (Python formats the binary float nearest to the value.)
\<close>

definition round_half_even :: "rat \<Rightarrow> int" where
  "round_half_even x =
     (let f = \<lfloor>x\<rfloor>; d = x - of_int f
      in if d < 1 / 2 then f else if 1 / 2 < d then f + 1 else if even f then f else f + 1)"

definition fmt2 :: "rat \<Rightarrow> string" where
  "fmt2 x =
     (let n = nat (round_half_even (\<bar>x\<bar> * 100))
      in (if x < 0 then ''-'' else '''') @ str_nat (n div 100) @ ''.'' @ zero_pad 2 (str_nat (n mod 100)))"

datatype app_value = AppStr string | AppContent application_content

record engine_result =
  success :: bool
  error_text :: "string option"
  summary :: "summary_dict option"
  tracker :: "ApplicationTracker option"

text \<open>
  The local variables of \<open>run_autopilot\<close> that its loop updates. \<open>st_draws\<close> counts the
  values taken from the random source and \<open>st_portal_calls\<close> the calls of
  \<open>portal.submit_application\<close>; neither exists in the source, they are there to be
  reasoned about.
\<close>

record engine_state =
  st_tracker :: ApplicationTracker
  st_portal :: SandboxJobPortal
  st_summary :: summary_dict
  st_apps_today :: nat
  st_draws :: nat
  st_portal_calls :: nat

definition portal_call ::
  "(nat \<Rightarrow> rat) \<Rightarrow> engine_state \<Rightarrow> (string \<times> app_value) list \<Rightarrow> engine_state \<times> (error + submission)" where
  "portal_call random st application =
     (case submit_application (st_portal st) application (random (st_draws st)) of
        (portal', out) \<Rightarrow>
          (st\<lparr>st_portal := portal',
              st_draws := st_draws st + (if missing_fields application = [] then 1 else 0),
              st_portal_calls := st_portal_calls st + 1\<rparr>,
           out))"

definition tracked ::
  "(nat \<Rightarrow> rat) \<Rightarrow> engine_state \<Rightarrow> string \<Rightarrow> string \<Rightarrow> string option \<Rightarrow> string option \<Rightarrow> engine_state" where
  "tracked clock st jid status' reason receipt =
     st\<lparr>st_tracker := track clock (st_tracker st) jid status' reason receipt\<rparr>"

text \<open>\<open>tracker.track(status="skipped", ...); skipped += 1; continue\<close>\<close>

definition skip_job :: "(nat \<Rightarrow> rat) \<Rightarrow> engine_state \<Rightarrow> string \<Rightarrow> string option \<Rightarrow> engine_state" where
  "skip_job clock st jid reason =
     (tracked clock st jid ''skipped'' reason None)
       \<lparr>st_summary := (st_summary st)\<lparr>skipped := skipped (st_summary st) + 1\<rparr>\<rparr>"

text \<open>The \<open>try\<close> with its nested \<open>try\<close>, and \<open>apps_today += 1\<close> after it.\<close>

definition submit_with_retry ::
  "(nat \<Rightarrow> rat) \<Rightarrow> (nat \<Rightarrow> rat) \<Rightarrow> engine_state \<Rightarrow> string \<Rightarrow> (string \<times> app_value) list \<Rightarrow> engine_state" where
  "submit_with_retry random clock st jid application =
     (let st' =
        (case portal_call random st application of
           (st1, Inr submission_result) \<Rightarrow>
             (tracked clock st1 jid ''submitted'' None (Some (receipt_id submission_result)))
               \<lparr>st_summary := (st_summary st1)\<lparr>submitted := submitted (st_summary st1) + 1\<rparr>\<rparr>
         | (st1, Inl e1) \<Rightarrow>
             (case portal_call random st1 application of
                (st2, Inr submission_result) \<Rightarrow>
                  (tracked clock st2 jid ''retried'' None (Some (receipt_id submission_result)))
                    \<lparr>st_summary := (st_summary st2)\<lparr>retried := retried (st_summary st2) + 1\<rparr>\<rparr>
              | (st2, Inl e2) \<Rightarrow>
                  (tracked clock st2 jid ''failed''
                     (Some (''Submission failed twice: '' @ str_error e2)) None)
                    \<lparr>st_summary := (st_summary st2)\<lparr>failed := failed (st_summary st2) + 1\<rparr>\<rparr>))
      in st'\<lparr>st_apps_today := st_apps_today st' + 1\<rparr>)"

definition application_of :: "StudentArtifactPack \<Rightarrow> string \<Rightarrow> application_content \<Rightarrow> (string \<times> app_value) list" where
  "application_of student jid app_content =
     [(''job_id'', AppStr jid), (''student_id'', AppStr (source_resume_hash student)),
      (''content'', AppContent app_content)]"

text \<open>
  One iteration of \<open>for job in jobs\<close>. \<open>student.constraints\<close> is optional in the schema;
  reading \<open>min_match_score\<close> from \<open>None\<close> raises.
\<close>

definition process_job ::
  "validator \<Rightarrow> (nat \<Rightarrow> rat) \<Rightarrow> (nat \<Rightarrow> rat) \<Rightarrow> StudentArtifactPack \<Rightarrow> JobListing \<Rightarrow> engine_state
     \<Rightarrow> error + engine_state" where
  "process_job validate_job_for_scoring random clock student job st =
     (let jid = job_id job;
          st1 = (tracked clock st jid ''queued'' None None)
                  \<lparr>st_summary := (st_summary st)\<lparr>queued := queued (st_summary st) + 1\<rparr>\<rparr>
      in case validate_job_for_scoring student job (st_apps_today st1) of
           Inl e \<Rightarrow> Inl e
         | Inr (ok, not_allowed_reason) \<Rightarrow>
             if \<not> ok then Inr (skip_job clock st1 jid not_allowed_reason)
             else
               let sc = score (score_job_match student job) in
               (case constraints student of
                  None \<Rightarrow> Inl (AttributeError ''NoneType object has no attribute min_match_score'')
                | Some c \<Rightarrow>
                    let min_score = min_match_score c in
                    if sc < min_score then
                      Inr (skip_job clock st1 jid
                             (Some (''Score '' @ fmt2 sc @ '' < required '' @ fmt2 min_score)))
                    else
                      (case generate_application_content student job of
                         (None, skip_reason) \<Rightarrow> Inr (skip_job clock st1 jid skip_reason)
                       | (Some app_content, _) \<Rightarrow>
                           Inr (submit_with_retry random clock st1 jid
                                  (application_of student jid app_content)))))"

fun process_jobs ::
  "validator \<Rightarrow> (nat \<Rightarrow> rat) \<Rightarrow> (nat \<Rightarrow> rat) \<Rightarrow> StudentArtifactPack \<Rightarrow> JobListing list \<Rightarrow> engine_state
     \<Rightarrow> error + engine_state" where
  "process_jobs v random clock student [] st = Inr st"
| "process_jobs v random clock student (job # jobs) st =
     (case process_job v random clock student job st of
        Inl e \<Rightarrow> Inl e
      | Inr st' \<Rightarrow> process_jobs v random clock student jobs st')"

definition initial_state :: "ApplicationTracker \<Rightarrow> engine_state" where
  "initial_state tr =
     \<lparr>st_tracker = tr, st_portal = new_portal,
      st_summary = \<lparr>queued = 0, skipped = 0, submitted = 0, retried = 0, failed = 0\<rparr>,
      st_apps_today = 0, st_draws = 0, st_portal_calls = 0\<rparr>"

definition failure_result :: "string \<Rightarrow> engine_result" where
  "failure_result msg = \<lparr>success = False, error_text = Some msg, summary = None, tracker = None\<rparr>"

text \<open>
  \<open>run_autopilot\<close>. \<open>Inl\<close> is an exception that leaves the function, which only the loop
  can raise; a validation failure is a result with \<open>success = False\<close>.
\<close>

definition run_autopilot ::
  "validator \<Rightarrow> (nat \<Rightarrow> rat) \<Rightarrow> (nat \<Rightarrow> rat) \<Rightarrow> pack_dict \<Rightarrow> job_dict list \<Rightarrow> ApplicationTracker option
     \<Rightarrow> error + engine_result" where
  "run_autopilot validate_job_for_scoring random clock student_data jobs_data tracker_arg =
     (case new_StudentArtifactPack student_data of
        Inl e \<Rightarrow> Inr (failure_result (''Student profile schema validation failed: '' @ str_error e))
      | Inr student \<Rightarrow>
          (case validate_jobs 0 jobs_data of
             Inl (idx, e) \<Rightarrow>
               Inr (failure_result (''Job entry #'' @ str_nat (idx + 1)
                                    @ '' schema validation failed: '' @ str_error e))
           | Inr jobs \<Rightarrow>
               (case process_jobs validate_job_for_scoring random clock student jobs
                       (initial_state (get_or tracker_arg new_tracker)) of
                  Inl e \<Rightarrow> Inl e
                | Inr st \<Rightarrow>
                    Inr \<lparr>success = True, error_text = None, summary = Some (st_summary st),
                         tracker = Some (st_tracker st)\<rparr>)))"

text \<open>
  The shape of a tracker's new events after a run over the given jobs: for each job, in
  order, one \<open>queued\<close> event and then exactly one event with a terminal status.
\<close>

definition terminal :: "summary_dict \<Rightarrow> nat" where
  "terminal s = skipped s + submitted s + retried s + failed s"

definition terminal_statuses :: "string list" where
  "terminal_statuses = [''skipped'', ''submitted'', ''retried'', ''failed'']"

fun well_tracked :: "JobListing list \<Rightarrow> event list \<Rightarrow> bool" where
  "well_tracked [] evs = (evs = [])"
| "well_tracked (job # jobs) (e1 # e2 # evs) =
     (ev_job_id e1 = job_id job \<and> ev_status e1 = ''queued''
      \<and> ev_job_id e2 = job_id job \<and> ev_status e2 \<in> set terminal_statuses
      \<and> well_tracked jobs evs)"
| "well_tracked (job # jobs) evs = False"

section \<open>backend/artifact\_services.py: EngineGateway\<close>

record gateway_result =
  g_success :: bool
  g_run_id :: "nat option"
  g_summary :: "summary_dict option"
  g_error :: "string option"
  g_approved_snapshot_id :: string

definition validate_all_bullets_verified :: "pack_dict \<Rightarrow> error + unit" where
  "validate_all_bullets_verified artifact_pack =
     (case find (\<lambda>bullet. \<not> truthy (get_or (bd_verified bullet) (PyBool False)))
             (pack_bullets artifact_pack) of
        Some bullet \<Rightarrow>
          Inl (ValueError (''Unverified bullet found in approved snapshot: ''
                           @ get_or (bd_description bullet) ''Unknown''))
      | None \<Rightarrow> Inr ())"

text \<open>The loop that resolves the job ids, dropping those the store does not know.\<close>

definition resolve_jobs :: "database \<Rightarrow> string list \<Rightarrow> job_dict list" where
  "resolve_jobs db job_ids =
     concat (map (\<lambda>jid. case get_job_by_id db jid of None \<Rightarrow> [] | Some job \<Rightarrow> [job]) job_ids)"

definition application_of_event :: "event \<Rightarrow> application_dict" where
  "application_of_event e =
     \<lparr>ad_job_id = ev_job_id e, ad_status = ev_status e, ad_reason = ev_reason e,
      ad_receipt_id = ev_receipt_id e, ad_timestamp = ev_timestamp e\<rparr>"

definition gateway_failure :: "string \<Rightarrow> ArtifactSnapshot \<Rightarrow> gateway_result" where
  "gateway_failure msg current_snapshot =
     \<lparr>g_success = False, g_run_id = None, g_summary = None, g_error = Some msg,
      g_approved_snapshot_id = snapshot_id current_snapshot\<rparr>"

text \<open>
  The body of the \<open>try\<close> once the engine has returned \<open>result\<close> with \<open>result["success"]\<close>
  true. The call of \<open>create_autopilot_run\<close> passes the keywords \<open>user_id\<close>,
  \<open>profile_snapshot\<close> and \<open>job_ids\<close>; an exception here is caught by the \<open>except\<close> clause of
  the caller, with the database as it is at that point.
\<close>

definition persist_run ::
  "database \<Rightarrow> int \<Rightarrow> string list \<Rightarrow> engine_result \<Rightarrow> ArtifactSnapshot
     \<Rightarrow> database \<times> (error + gateway_result)" where
  "persist_run db uid job_ids result current_snapshot =
     (case bind_keywords ''create_autopilot_run'' create_autopilot_run_params
             [''user_id'', ''profile_snapshot'', ''job_ids''] of
        Some e \<Rightarrow> (db, Inl e)
      | None \<Rightarrow>
          (case create_autopilot_run db uid job_ids of
             (db1, rid) \<Rightarrow>
               let db2 = (case tracker result of
                            None \<Rightarrow> db1
                          | Some tr \<Rightarrow>
                              save_application_history db1 uid rid
                                (map application_of_event (events tr)))
               in (case summary result of
                     None \<Rightarrow> (db2, Inl (KeyError ''summary''))
                   | Some s \<Rightarrow>
                       (complete_autopilot_run db2 rid s '''',
                        Inr \<lparr>g_success = True, g_run_id = Some rid, g_summary = Some s,
                             g_error = None,
                             g_approved_snapshot_id = snapshot_id current_snapshot\<rparr>))))"

text \<open>
  \<open>validate_and_execute\<close>. The approval service is the object given to the constructor
  and the engine is the function imported in the body; both are parameters here, so that
  the properties hold for whatever they return. The repository's own are
  \<open>get_current_approved\<close> and \<open>run_autopilot\<close>. The result is the database after the call and
  either the exception raised (\<open>Inl\<close>) or the dict returned.
\<close>

definition validate_and_execute ::
  "(database \<Rightarrow> int \<Rightarrow> error + ArtifactSnapshot option)
     \<Rightarrow> (pack_dict \<Rightarrow> job_dict list \<Rightarrow> error + engine_result)
     \<Rightarrow> database \<Rightarrow> int \<Rightarrow> string list
     \<Rightarrow> database \<times> (error + gateway_result)" where
  "validate_and_execute approval_service engine db uid job_ids =
     (case approval_service db uid of
        Inl e \<Rightarrow> (db, Inl e)
      | Inr None \<Rightarrow>
          (db, Inl (ValueError (''Engine execution requires approved artifact snapshot. ''
                     @ ''Please use the 'Prepare Application Artifacts' workflow first.'')))
      | Inr (Some current_snapshot) \<Rightarrow>
          if \<not> frozen current_snapshot then
            (db, Inl (ValueError ''Artifact snapshot must be frozen for engine execution''))
          else
            let approved_artifact_pack = student_artifact_pack current_snapshot in
            (case validate_all_bullets_verified approved_artifact_pack of
               Inl e \<Rightarrow> (db, Inl e)
             | Inr _ \<Rightarrow>
                 let jobs_data = resolve_jobs db job_ids in
                 if jobs_data = [] then
                   (db, Inl (ValueError ''No valid jobs found for execution''))
                 else
                   (case engine approved_artifact_pack jobs_data of
                      Inl e \<Rightarrow>
                        (db, Inr (gateway_failure (''Engine execution failed: '' @ str_error e)
                                    current_snapshot))
                    | Inr result \<Rightarrow>
                        if success result then
                          (case persist_run db uid job_ids result current_snapshot of
                             (db', Inl e) \<Rightarrow>
                               (db', Inr (gateway_failure (''Engine execution failed: '' @ str_error e)
                                            current_snapshot))
                           | (db', Inr r) \<Rightarrow> (db', Inr r))
                        else
                          (db, Inr (gateway_failure
                                      (get_or (error_text result) ''Engine execution failed'')
                                      current_snapshot)))))"

section \<open>Objects and references: \_apply\_user\_verifications on the store\<close>

text \<open>
  Python dicts and lists are objects that variables and containers refer to. To see what
  \<open>_apply_user_verifications\<close> does to the pack it is given, the objects live in a store and
  the values that can sit in a container are either plain values or references to objects.
\<close>

datatype pyval = PVal pyvalue | PRef nat

datatype pyobj = PDict "(string \<times> pyval) list" | PList "pyval list"

record store =
  objects :: "nat \<Rightarrow> pyobj option"
  next_free :: nat

text \<open>\<open>d[key] = v\<close> on the items of a dict: an existing key keeps its place.\<close>

fun dict_set :: "(string \<times> pyval) list \<Rightarrow> string \<Rightarrow> pyval \<Rightarrow> (string \<times> pyval) list" where
  "dict_set [] key v = [(key, v)]"
| "dict_set ((k, x) # items) key v =
     (if k = key then (k, v) # items else (k, x) # dict_set items key v)"

definition allocate :: "store \<Rightarrow> pyobj \<Rightarrow> store \<times> nat" where
  "allocate h obj =
     (h\<lparr>objects := (objects h)(next_free h := Some obj), next_free := next_free h + 1\<rparr>,
      next_free h)"

text \<open>\<open>d.copy()\<close>: a new dict with the same items; the items still refer to the same objects.\<close>

definition dict_copy :: "store \<Rightarrow> nat \<Rightarrow> error + store \<times> nat" where
  "dict_copy h a =
     (case objects h a of
        Some (PDict items) \<Rightarrow> Inr (allocate h (PDict items))
      | _ \<Rightarrow> Inl (AttributeError ''object has no attribute copy''))"

text \<open>The elements that \<open>for x in d.get(key, [])\<close> iterates over.\<close>

definition get_list :: "store \<Rightarrow> nat \<Rightarrow> string \<Rightarrow> error + pyval list" where
  "get_list h a key =
     (case objects h a of
        Some (PDict items) \<Rightarrow>
          (case map_of items key of
             None \<Rightarrow> Inr []
           | Some (PRef l) \<Rightarrow>
               (case objects h l of
                  Some (PList xs) \<Rightarrow> Inr xs
                | _ \<Rightarrow> Inl (TypeError ''value is not a list''))
           | Some _ \<Rightarrow> Inl (TypeError ''value is not a list''))
      | _ \<Rightarrow> Inl (AttributeError ''object has no attribute get''))"

text \<open>The inner loop: \<open>bullet["verified"] = \<dots>\<close> on the object each element refers to.\<close>

fun verify_bullets ::
  "store \<Rightarrow> (string \<Rightarrow> pyvalue option) \<Rightarrow> nat \<Rightarrow> nat \<Rightarrow> pyval list \<Rightarrow> error + store" where
  "verify_bullets h lookup i j [] = Inr h"
| "verify_bullets h lookup i j (bullet # rest) =
     (case bullet of
        PRef a \<Rightarrow>
          (case objects h a of
             Some (PDict items) \<Rightarrow>
               let flag = (case lookup (bullet_id_of i j) of Some v \<Rightarrow> v | None \<Rightarrow> PyBool False);
                   h' = h\<lparr>objects := (objects h)(a := Some (PDict (dict_set items ''verified'' (PVal flag))))\<rparr>
               in verify_bullets h' lookup i (j + 1) rest
           | _ \<Rightarrow> Inl (TypeError ''object does not support item assignment''))
      | _ \<Rightarrow> Inl (TypeError ''object does not support item assignment''))"

fun verify_projects ::
  "store \<Rightarrow> (string \<Rightarrow> pyvalue option) \<Rightarrow> nat \<Rightarrow> pyval list \<Rightarrow> error + store" where
  "verify_projects h lookup i [] = Inr h"
| "verify_projects h lookup i (project # rest) =
     (case project of
        PRef a \<Rightarrow>
          (case get_list h a ''bullets'' of
             Inl e \<Rightarrow> Inl e
           | Inr bs \<Rightarrow>
               (case verify_bullets h lookup i 0 bs of
                  Inl e \<Rightarrow> Inl e
                | Inr h' \<Rightarrow> verify_projects h' lookup (i + 1) rest))
      | _ \<Rightarrow> Inl (AttributeError ''object has no attribute get''))"

text \<open>
  \<open>_apply_user_verifications(draft_artifact_pack, confirmation)\<close> with the pack given by
  reference: the store after the call and the reference it returns.
\<close>

definition apply_user_verifications_in_store ::
  "store \<Rightarrow> nat \<Rightarrow> UserConfirmation \<Rightarrow> error + store \<times> nat" where
  "apply_user_verifications_in_store h draft_artifact_pack confirmation =
     (case dict_copy h draft_artifact_pack of
        Inl e \<Rightarrow> Inl e
      | Inr (h1, approved_pack) \<Rightarrow>
          (case get_list h1 approved_pack ''projects'' of
             Inl e \<Rightarrow> Inl e
           | Inr ps \<Rightarrow>
               (case verify_projects h1 (verification_lookup confirmation) 0 ps of
                  Inl e \<Rightarrow> Inl e
                | Inr h2 \<Rightarrow> Inr (h2, approved_pack))))"

text \<open>\<open>pack["projects"][i]["bullets"][j]["verified"]\<close>, read through the references.\<close>

definition verified_flag :: "store \<Rightarrow> nat \<Rightarrow> nat \<Rightarrow> nat \<Rightarrow> pyval option" where
  "verified_flag h pack i j =
     (case get_list h pack ''projects'' of
        Inr ps \<Rightarrow>
          (if i < length ps then
             (case ps ! i of
                PRef a \<Rightarrow>
                  (case get_list h a ''bullets'' of
                     Inr bs \<Rightarrow>
                       (if j < length bs then
                          (case bs ! j of
                             PRef b \<Rightarrow>
                               (case objects h b of
                                  Some (PDict items) \<Rightarrow> map_of items ''verified''
                                | _ \<Rightarrow> None)
                           | _ \<Rightarrow> None)
                        else None)
                   | Inl e \<Rightarrow> None)
              | _ \<Rightarrow> None)
           else None)
      | Inl e \<Rightarrow> None)"

section \<open>Concrete inputs\<close>

definition w_app :: "(string \<times> unit) list" where
  "w_app = [(''job_id'', ()), (''student_id'', ()), (''content'', ())]"

definition w_bullet :: "string \<Rightarrow> string list \<Rightarrow> Bullet" where
  "w_bullet d sk = \<lparr>description = d, skills = sk, verified = True, proofs = None\<rparr>"

definition w_student :: StudentArtifactPack where
  "w_student =
     \<lparr>source_resume_hash = ''h1'', skill_vocab = [''python''], education = [],
      projects = [\<lparr>project_name = ''p0'', project_description = ''crawler'',
                   project_skills = [''python''],
                   bullets = [w_bullet ''a'' [''python''], w_bullet ''b'' [''python''],
                              w_bullet ''c'' [''python''], w_bullet ''d'' [''python'']]\<rparr>],
      constraints = Some \<lparr>max_apps_per_day = 5, min_match_score = 6 / 10, blocked_companies = []\<rparr>\<rparr>"

definition w_job :: JobListing where
  "w_job = \<lparr>job_id = ''j1'', company = ''Acme'', role = ''Engineer'', location = ''Remote'',
            required_skills = [''python'', ''sql''], min_experience_years = 0\<rparr>"

definition w_bullet_dict :: "string \<Rightarrow> bool \<Rightarrow> bullet_dict" where
  "w_bullet_dict d v =
     \<lparr>bd_description = Some d, bd_skills = Some [''python''], bd_verified = Some (PyBool v), bd_proofs = None\<rparr>"

definition w_pack :: "bullet_dict list \<Rightarrow> pack_dict" where
  "w_pack bs =
     \<lparr>pk_source_resume_hash = Some ''h1'', pk_skill_vocab = Some [''python''],
      pk_education = Some [],
      pk_projects = Some [\<lparr>pd_name = Some ''p0'', pd_description = Some ''crawler'',
                            pd_skills = Some [''python''], pd_bullets = Some bs\<rparr>],
      pk_constraints = Some \<lparr>max_apps_per_day = 5, min_match_score = 6 / 10, blocked_companies = []\<rparr>\<rparr>"

definition w_confirmation :: "bullet_verification list \<Rightarrow> UserConfirmation" where
  "w_confirmation bvs =
     \<lparr>bullets_verified = bvs, accuracy_confirmed = True, confirmation_timestamp = ''2024-01-01T00:00:00''\<rparr>"

definition w_metadata :: approval_metadata_dict where
  "w_metadata = \<lparr>am_user_confirmation = Some (w_confirmation []), am_verification_count = Some 0,
                 am_modified_bullets = Some []\<rparr>"

definition w_db :: database where
  "w_db = \<lparr>job_listings = [\<lparr>jr_job_id = ''j1'', jr_company = ''Acme'', jr_role = ''Engineer'',
                              jr_location = ''Remote'', jr_required_skills = [''python''],
                              jr_min_experience_years = 0, jr_is_active = True\<rparr>],
           autopilot_runs = [], next_run_id = 1, application_history = [],
           draft_artifacts = [], artifact_snapshots = [], db_now = 100\<rparr>"

definition w_draft :: DraftArtifactPack where
  "w_draft = \<lparr>draft_pack = w_pack [w_bullet_dict ''a'' False, w_bullet_dict ''b'' False],
              draft_status = ''DRAFT'', created_at = 50, source_profile_hash = ''ph''\<rparr>"

definition w_bv :: "string \<Rightarrow> bool \<Rightarrow> bullet_verification" where
  "w_bv b v = \<lparr>bullet_id = b, bv_verified = PyBool v, user_modified = None\<rparr>"

definition w_job_dict :: "string \<Rightarrow> string list \<Rightarrow> job_dict" where
  "w_job_dict jid req =
     \<lparr>jd_job_id = jid, jd_company = ''Acme'', jd_role = ''Engineer'', jd_location = ''Remote'',
      jd_required_skills = req, jd_min_experience_years = 0, jd_extra_keys = []\<rparr>"

definition w_validator :: validator where
  "w_validator student job apps_today =
     Inr (if company job \<in> set (blocked_companies (get_or (constraints student)
                                   \<lparr>max_apps_per_day = 0, min_match_score = 0, blocked_companies = []\<rparr>))
          then (False, Some ''BLOCKED_COMPANY'') else (True, None))"

definition w_draws :: "rat list \<Rightarrow> nat \<Rightarrow> rat" where
  "w_draws ds n = (if n < length ds then ds ! n else 1 / 2)"

definition w_clock :: "nat \<Rightarrow> rat" where
  "w_clock n = of_nat n"

definition w_jobs :: "job_dict list" where
  "w_jobs = [w_job_dict ''j1'' [''python''], w_job_dict ''j2'' [''python''],
             w_job_dict ''j3'' [''python''], w_job_dict ''j4'' [''go'']]"


text \<open>
  A store that holds the wrapped pack \<open>w_pack [w_bullet_dict ''a'' False]\<close> of a draft: the
  pack at address 0, its project list at 1, the project at 2, its bullet list at 3, the
  bullet at 4.
\<close>

definition w_store :: store where
  "w_store =
     \<lparr>objects = (\<lambda>a. None)
        (0 := Some (PDict [(''source_resume_hash'', PVal (PyStr ''h1'')),
                           (''skill_vocab'', PVal (PyList [PyStr ''python''])),
                           (''education'', PVal (PyList [])),
                           (''projects'', PRef 1),
                           (''constraints'',
                            PVal (PyDict [(''max_apps_per_day'', PyInt 5),
                                          (''min_match_score'', PyFloat (6 / 10)),
                                          (''blocked_companies'', PyList [])]))]),
         1 := Some (PList [PRef 2]),
         2 := Some (PDict [(''name'', PVal (PyStr ''p0'')), (''description'', PVal (PyStr ''crawler'')),
                           (''skills'', PVal (PyList [PyStr ''python''])), (''bullets'', PRef 3)]),
         3 := Some (PList [PRef 4]),
         4 := Some (PDict [(''description'', PVal (PyStr ''a'')),
                           (''skills'', PVal (PyList [PyStr ''python''])),
                           (''verified'', PVal (PyBool False))])),
      next_free = 5\<rparr>"

definition w_snapshot :: "pack_dict \<Rightarrow> bool \<Rightarrow> ArtifactSnapshot" where
  "w_snapshot pack frz =
     \<lparr>snapshot_id = ''s1'', snapshot_user_id = 7, student_artifact_pack = pack, approved_at = 60,
      snapshot_resume_hash = ''h1'', snapshot_profile_hash = ''ph'', frozen = frz,
      approval_metadata = w_metadata\<rparr>"



text \<open>A bullet whose \<open>verified\<close> entry is any value, as a confirmation can carry it.\<close>

definition w_bullet_flag :: "string \<Rightarrow> pyvalue \<Rightarrow> bullet_dict" where
  "w_bullet_flag d v =
     \<lparr>bd_description = Some d, bd_skills = Some [''python''], bd_verified = Some v, bd_proofs = None\<rparr>"

text \<open>A pack with two projects, the first without bullets, the second with the given ones.\<close>

definition w_pack2 :: "bullet_dict list \<Rightarrow> pack_dict" where
  "w_pack2 bs =
     \<lparr>pk_source_resume_hash = Some ''h1'', pk_skill_vocab = Some [''python''],
      pk_education = Some [],
      pk_projects = Some [\<lparr>pd_name = Some ''p0'', pd_description = Some ''crawler'',
                            pd_skills = Some [''python''], pd_bullets = Some []\<rparr>,
                          \<lparr>pd_name = Some ''p1'', pd_description = Some ''indexer'',
                            pd_skills = Some [''python''], pd_bullets = Some bs\<rparr>],
      pk_constraints = None\<rparr>"

text \<open>
  A student with two projects whose bullets are relevant to \<open>w_job\<close> (\<open>a\<close>, \<open>b\<close>, \<open>c\<close>, \<open>d\<close>)
  or not (\<open>x\<close>, \<open>y\<close>).
\<close>

definition w_student2 :: StudentArtifactPack where
  "w_student2 =
     \<lparr>source_resume_hash = ''h2'', skill_vocab = [''python'', ''sql'', ''go''], education = [],
      projects = [\<lparr>project_name = ''p0'', project_description = ''crawler'',
                   project_skills = [''python'', ''go''],
                   bullets = [w_bullet ''a'' [''python''], w_bullet ''x'' [''go''],
                              w_bullet ''b'' [''go'', ''python'']]\<rparr>,
                  \<lparr>project_name = ''p1'', project_description = ''warehouse'',
                   project_skills = [''sql''],
                   bullets = [w_bullet ''y'' [], w_bullet ''c'' [''sql''],
                              w_bullet ''d'' [''python'', ''sql'']]\<rparr>],
      constraints = None\<rparr>"


definition w_draft_one :: DraftArtifactPack where
  "w_draft_one = \<lparr>draft_pack = w_pack [w_bullet_dict ''a'' False],
                  draft_status = ''DRAFT'', created_at = 50, source_profile_hash = ''ph''\<rparr>"


text \<open>A store whose snapshot row for user 7 holds a bullet with the string \<open>"false"\<close> as flag.\<close>

definition w_db_flag :: database where
  "w_db_flag =
     w_db\<lparr>artifact_snapshots :=
            [\<lparr>sr_id = ''s1'', sr_user_id = 7,
              sr_student_artifact_pack = w_pack [w_bullet_flag ''a'' (PyStr ''false'')],
              sr_approved_at = 60, sr_source_resume_hash = ''h1'', sr_source_profile_hash = ''ph'',
              sr_approval_metadata = w_metadata, sr_integrity_hash = ''i1''\<rparr>]\<rparr>"

section \<open>Properties of the formatting functions\<close>

lemma digit_val_digit_char: "d < 10 \<Longrightarrow> digit_val (digit_char d) = d"
proof -
  assume "d < 10"
  then have "d \<in> {0,1,2,3,4,5,6,7,8,9}" by auto
  then show ?thesis by (auto simp: digit_val_def digit_char_def)
qed

lemma nat_of_digits_append: "nat_of_digits (s @ [c]) = 10 * nat_of_digits s + digit_val c"
  by (simp add: nat_of_digits_def)

lemma nat_of_digits_str_nat: "nat_of_digits (str_nat n) = n"
proof (induction n rule: str_nat.induct)
  case (1 n)
  show ?case
  proof (cases "n < 10")
    case True
    then show ?thesis
      by (subst str_nat.simps) (simp add: nat_of_digits_def digit_val_digit_char)
  next
    case False
    with 1 show ?thesis
      by (subst str_nat.simps) (simp add: nat_of_digits_append digit_val_digit_char)
  qed
qed

lemma nat_of_digits_zeros: "nat_of_digits (replicate k CHR ''0'' @ s) = nat_of_digits s"
proof (induction k)
  case 0 show ?case by simp
next
  case (Suc k)
  have z: "digit_val CHR ''0'' = 0" by (simp add: digit_val_def digit_char_def)
  have "foldl (\<lambda>a c. 10 * a + digit_val c) 0 (CHR ''0'' # replicate k CHR ''0'' @ s)
      = foldl (\<lambda>a c. 10 * a + digit_val c) 0 (replicate k CHR ''0'' @ s)"
    by (simp add: z)
  with Suc show ?case by (simp add: nat_of_digits_def)
qed

lemma length_str_nat_le: "0 < k \<Longrightarrow> n < 10 ^ k \<Longrightarrow> length (str_nat n) \<le> k"
proof (induction n arbitrary: k rule: str_nat.induct)
  case (1 n)
  show ?case
  proof (cases "n < 10")
    case True
    with 1 show ?thesis by (subst str_nat.simps) simp
  next
    case False
    obtain j where k: "k = Suc j" using 1(2) by (cases k) auto
    have "j \<noteq> 0" using 1(3) False k by (cases j) auto
    moreover have "n div 10 < 10 ^ j" using 1(3) k by (simp add: less_mult_imp_div_less mult.commute)
    ultimately have "length (str_nat (n div 10)) \<le> j" using 1(1)[OF False, of j] by simp
    with False k show ?thesis by (subst str_nat.simps) simp
  qed
qed

lemma length_str_nat_gt: "10 ^ k \<le> n \<Longrightarrow> k < length (str_nat n)"
proof (induction n arbitrary: k rule: str_nat.induct)
  case (1 n)
  show ?case
  proof (cases "n < 10")
    case True
    have "k = 0"
    proof (rule ccontr)
      assume "k \<noteq> 0"
      then have "(10::nat) ^ 1 \<le> 10 ^ k" by (intro power_increasing) auto
      with True 1(2) show False by simp
    qed
    with True show ?thesis by (subst str_nat.simps) simp
  next
    case False
    show ?thesis
    proof (cases k)
      case 0
      then show ?thesis by (subst str_nat.simps) simp
    next
      case (Suc j)
      with 1(2) have "10 ^ j \<le> n div 10" by (simp add: less_eq_div_iff_mult_less_eq mult.commute)
      then have "j < length (str_nat (n div 10))" using 1(1)[OF False] by simp
      with False Suc show ?thesis by (subst str_nat.simps) simp
    qed
  qed
qed

section \<open>Properties of the sandbox portal\<close>

lemma submit_application_missing:
  "missing_fields application \<noteq> [] \<Longrightarrow>
   submit_application self application draw =
     (self, Inl (ValueError (''Missing required application field(s): '' @ repr_list (missing_fields application))))"
  by (simp add: submit_application_def)

lemma submit_application_rejected:
  "missing_fields application = [] \<Longrightarrow> draw < FAILURE_RATE \<Longrightarrow>
   submit_application self application draw =
     (self, Inl (RuntimeError ''Submission failed due to random rejection (sandbox mode).''))"
  by (simp add: submit_application_def)

lemma submit_application_success:
  "missing_fields application = [] \<Longrightarrow> \<not> draw < FAILURE_RATE \<Longrightarrow>
   submit_application self application draw =
     (self\<lparr>app_counter := app_counter self + 1\<rparr>,
      Inr \<lparr>status = ''submitted'',
           receipt_id = ''sandbox-'' @ zero_pad 6 (str_nat (app_counter self + 1))\<rparr>)"
  by (simp add: submit_application_def Let_def)

lemma receipt_number_receipt:
  "receipt_number (''sandbox-'' @ zero_pad 6 (str_nat k)) = k"
  by (simp add: receipt_number_def zero_pad_def nat_of_digits_zeros nat_of_digits_str_nat)

lemma length_zero_pad: "length (zero_pad w s) = max w (length s)"
  by (simp add: zero_pad_def)

lemma submit_all_receipts:
  "submit_all self calls = (self', outs) \<Longrightarrow>
   receipts outs =
     map (\<lambda>k. ''sandbox-'' @ zero_pad 6 (str_nat k))
       [app_counter self + 1 ..< app_counter self + 1 + length (receipts outs)]
   \<and> app_counter self' = app_counter self + length (receipts outs)"
proof (induction calls arbitrary: self self' outs)
  case Nil
  then show ?case by (simp add: receipts_def)
next
  case (Cons c calls)
  obtain application draw where c: "c = (application, draw)" by (cases c)
  obtain s1 out where s1: "submit_application self application draw = (s1, out)"
    by (cases "submit_application self application draw")
  obtain s2 outs2 where s2: "submit_all s1 calls = (s2, outs2)"
    by (cases "submit_all s1 calls")
  from Cons.prems c s1 s2 have eq: "self' = s2" "outs = out # outs2" by auto
  note IH = Cons.IH[OF s2]
  show ?case
  proof (cases "missing_fields application = [] \<and> \<not> draw < FAILURE_RATE")
    case True
    with s1 have o: "s1 = self\<lparr>app_counter := app_counter self + 1\<rparr>"
      "out = Inr \<lparr>status = ''submitted'', receipt_id = ''sandbox-'' @ zero_pad 6 (str_nat (app_counter self + 1))\<rparr>"
      by (simp_all add: submit_application_success)
    have r: "receipts outs = (''sandbox-'' @ zero_pad 6 (str_nat (app_counter self + 1))) # receipts outs2"
      using eq o by (simp add: receipts_def)
    have c1: "app_counter s1 = app_counter self + 1" using o by simp
    define a where "a = app_counter self"
    define m where "m = length (receipts outs2)"
    have u: "[a + 1 ..< a + 1 + Suc m] = (a + 1) # [a + 1 + 1 ..< a + 1 + 1 + m]"
      by (simp add: upt_conv_Cons)
    have l: "length (receipts outs) = Suc m" using r m_def by simp
    from IH c1 have i1: "receipts outs2 = map (\<lambda>k. ''sandbox-'' @ zero_pad 6 (str_nat k)) [a + 1 + 1 ..< a + 1 + 1 + m]"
      and i2: "app_counter s2 = a + 1 + m" by (simp_all add: a_def m_def)
    have "receipts outs = map (\<lambda>k. ''sandbox-'' @ zero_pad 6 (str_nat k)) [a + 1 ..< a + 1 + Suc m]"
      unfolding u using r i1 by (simp add: a_def)
    then show ?thesis using l i2 eq by (simp add: a_def)
  next
    case False
    with s1 have o: "s1 = self" "\<exists>e. out = Inl e"
      by (auto simp: submit_application_def Let_def split: if_splits)
    then have r: "receipts outs = receipts outs2" using eq by (auto simp: receipts_def)
    show ?thesis using IH r o eq by simp
  qed
qed

lemma submit_all_length:
  "submit_all self calls = (self', outs) \<Longrightarrow> length outs = length calls"
proof (induction calls arbitrary: self self' outs)
  case Nil then show ?case by simp
next
  case (Cons c calls)
  obtain application draw where c: "c = (application, draw)" by (cases c)
  obtain s1 out where s1: "submit_application self application draw = (s1, out)"
    by (cases "submit_application self application draw")
  obtain s2 outs2 where s2: "submit_all s1 calls = (s2, outs2)"
    by (cases "submit_all s1 calls")
  from Cons.prems c s1 s2 have "outs = out # outs2" by auto
  with Cons.IH[OF s2] show ?case by simp
qed

lemma submit_all_nth:
  "submit_all self calls = (self', outs) \<Longrightarrow> i < length calls \<Longrightarrow>
   \<exists>p. outs ! i = snd (submit_application p (fst (calls ! i)) (snd (calls ! i)))"
proof (induction calls arbitrary: self self' outs i)
  case Nil then show ?case by simp
next
  case (Cons c calls)
  obtain application draw where c: "c = (application, draw)" by (cases c)
  obtain s1 out where s1: "submit_application self application draw = (s1, out)"
    by (cases "submit_application self application draw")
  obtain s2 outs2 where s2: "submit_all s1 calls = (s2, outs2)"
    by (cases "submit_all s1 calls")
  from Cons.prems c s1 s2 have eq: "outs = out # outs2" by auto
  show ?case
  proof (cases i)
    case 0
    have "outs ! 0 = snd (submit_application self (fst (c)) (snd c))" using eq c s1 by simp
    with 0 show ?thesis by auto
  next
    case (Suc j)
    with Cons.prems have "j < length calls" by simp
    from Cons.IH[OF s2 this] Suc eq show ?thesis by simp
  qed
qed

lemma submit_all_count:
  "submit_all self calls = (self', outs) \<Longrightarrow>
   length (receipts outs) =
     length (filter (\<lambda>c. missing_fields (fst c) = [] \<and> \<not> snd c < FAILURE_RATE) calls)"
proof (induction calls arbitrary: self self' outs)
  case Nil then show ?case by (simp add: receipts_def)
next
  case (Cons c calls)
  obtain application draw where c: "c = (application, draw)" by (cases c)
  obtain s1 out where s1: "submit_application self application draw = (s1, out)"
    by (cases "submit_application self application draw")
  obtain s2 outs2 where s2: "submit_all s1 calls = (s2, outs2)"
    by (cases "submit_all s1 calls")
  from Cons.prems c s1 s2 have eq: "outs = out # outs2" by auto
  have "receipts outs = (case out of Inl e \<Rightarrow> [] | Inr s \<Rightarrow> [receipt_id s]) @ receipts outs2"
    using eq by (simp add: receipts_def)
  moreover have "length (case out of Inl e \<Rightarrow> [] | Inr s \<Rightarrow> [receipt_id s]) =
      (if missing_fields application = [] \<and> \<not> draw < FAILURE_RATE then 1 else 0)"
    using s1 by (auto simp: submit_application_def Let_def split: if_splits)
  ultimately show ?case using Cons.IH[OF s2] c by simp
qed

lemma missing_fields_explicit:
  "missing_fields application =
     filter (\<lambda>field. field \<notin> fst ` set application) [''job_id'', ''student_id'', ''content'']"
  by (simp add: missing_fields_def required_fields_def)

lemma missing_fields_empty_iff:
  "missing_fields application = [] \<longleftrightarrow>
     {''job_id'', ''student_id'', ''content''} \<subseteq> fst ` set application"
  by (simp add: missing_fields_def required_fields_def)

text \<open>
  Claim C9, as the code has it. For every portal instance and every sequence of calls on it:
  a call whose application lacks \<open>job_id\<close>, \<open>student_id\<close> or \<open>content\<close> fails with a
  \<open>ValueError\<close> whose message lists, in this order, those of the three fields that the
  application lacks; a call with all three fields that the random draw rejects fails with a
  \<open>RuntimeError\<close>; the receipt ids of the successful calls are \<open>sandbox-\<close> followed by the
  counter values \<open>c + 1, c + 2, \<dots>\<close> (\<open>c\<close> the counter before the first call, zero for a new
  portal) zero-padded to at least six digits, so their numbers are strictly increasing; the
  counter grows by exactly the number of calls that have all three fields and pass the draw;
  and a receipt id has exactly six digits as long as its number is below \<open>1000000\<close>, and more
  from there on.
\<close>

theorem portal_receipts:
  assumes run: "submit_all self calls = (self', outs)"
  shows "length outs = length calls
    \<and> (\<forall>i < length calls.
          (''job_id'' \<notin> fst ` set (fst (calls ! i)) \<or> ''student_id'' \<notin> fst ` set (fst (calls ! i))
             \<or> ''content'' \<notin> fst ` set (fst (calls ! i)) \<longrightarrow>
             outs ! i = Inl (ValueError (''Missing required application field(s): ''
                 @ repr_list (filter (\<lambda>field. field \<notin> fst ` set (fst (calls ! i)))
                                [''job_id'', ''student_id'', ''content'']))))
        \<and> ({''job_id'', ''student_id'', ''content''} \<subseteq> fst ` set (fst (calls ! i))
             \<and> snd (calls ! i) < FAILURE_RATE \<longrightarrow>
             outs ! i = Inl (RuntimeError ''Submission failed due to random rejection (sandbox mode).'')))
    \<and> receipts outs =
         map (\<lambda>k. ''sandbox-'' @ zero_pad 6 (str_nat k))
           [app_counter self + 1 ..< app_counter self + 1 + length (receipts outs)]
    \<and> length (receipts outs) =
         length (filter (\<lambda>c. {''job_id'', ''student_id'', ''content''} \<subseteq> fst ` set (fst c)
                             \<and> \<not> snd c < FAILURE_RATE) calls)
    \<and> app_counter self' = app_counter self + length (receipts outs)
    \<and> sorted_wrt (<) (map receipt_number (receipts outs))
    \<and> (\<forall>r \<in> set (receipts outs).
          (receipt_number r < 10 ^ 6 \<longrightarrow> length r = 14) \<and> (10 ^ 6 \<le> receipt_number r \<longrightarrow> 14 < length r))"
proof -
  let ?mk = "\<lambda>k. ''sandbox-'' @ zero_pad 6 (str_nat k)"
  let ?ks = "[app_counter self + 1 ..< app_counter self + 1 + length (receipts outs)]"
  have len: "length outs = length calls" by (rule submit_all_length[OF run])
  have each: "\<forall>i < length calls.
          (''job_id'' \<notin> fst ` set (fst (calls ! i)) \<or> ''student_id'' \<notin> fst ` set (fst (calls ! i))
             \<or> ''content'' \<notin> fst ` set (fst (calls ! i)) \<longrightarrow>
             outs ! i = Inl (ValueError (''Missing required application field(s): ''
                 @ repr_list (filter (\<lambda>field. field \<notin> fst ` set (fst (calls ! i)))
                                [''job_id'', ''student_id'', ''content'']))))
        \<and> ({''job_id'', ''student_id'', ''content''} \<subseteq> fst ` set (fst (calls ! i))
             \<and> snd (calls ! i) < FAILURE_RATE \<longrightarrow>
             outs ! i = Inl (RuntimeError ''Submission failed due to random rejection (sandbox mode).''))"
  proof (intro allI impI conjI)
    fix i assume i: "i < length calls"
    from submit_all_nth[OF run i] obtain p where
      p: "outs ! i = snd (submit_application p (fst (calls ! i)) (snd (calls ! i)))" by blast
    {
      assume "''job_id'' \<notin> fst ` set (fst (calls ! i)) \<or> ''student_id'' \<notin> fst ` set (fst (calls ! i))
             \<or> ''content'' \<notin> fst ` set (fst (calls ! i))"
      then have "missing_fields (fst (calls ! i)) \<noteq> []"
        unfolding missing_fields_empty_iff by blast
      then show "outs ! i = Inl (ValueError (''Missing required application field(s): ''
                 @ repr_list (filter (\<lambda>field. field \<notin> fst ` set (fst (calls ! i)))
                                [''job_id'', ''student_id'', ''content''])))"
        unfolding p missing_fields_explicit[symmetric] by (simp add: submit_application_missing)
    }
    {
      assume "{''job_id'', ''student_id'', ''content''} \<subseteq> fst ` set (fst (calls ! i))
             \<and> snd (calls ! i) < FAILURE_RATE"
      then have "missing_fields (fst (calls ! i)) = []" "snd (calls ! i) < FAILURE_RATE"
        unfolding missing_fields_empty_iff by blast+
      then show "outs ! i = Inl (RuntimeError ''Submission failed due to random rejection (sandbox mode).'')"
        unfolding p by (simp add: submit_application_rejected)
    }
  qed
  have rec: "receipts outs = map ?mk ?ks" and cnt: "app_counter self' = app_counter self + length (receipts outs)"
    using submit_all_receipts[OF run] by simp_all
  have num: "map receipt_number (receipts outs) = ?ks"
  proof -
    have "map receipt_number (map ?mk ?ks) = ?ks"
      unfolding map_map comp_def receipt_number_receipt by simp
    with rec show ?thesis by metis
  qed
  have srt: "sorted_wrt (<) (map receipt_number (receipts outs))"
    unfolding num by (rule sorted_wrt_upt)
  have wid: "\<forall>r \<in> set (receipts outs).
          (receipt_number r < 10 ^ 6 \<longrightarrow> length r = 14) \<and> (10 ^ 6 \<le> receipt_number r \<longrightarrow> 14 < length r)"
  proof
    fix r assume "r \<in> set (receipts outs)"
    then have "r \<in> set (map ?mk ?ks)" using rec by metis
    then obtain k where k: "r = ?mk k" unfolding set_map by blast
    have n: "receipt_number r = k" unfolding k(1) by (rule receipt_number_receipt)
    have l: "length r = 8 + max 6 (length (str_nat k))" unfolding k(1) by (simp add: length_zero_pad)
    show "(receipt_number r < 10 ^ 6 \<longrightarrow> length r = 14) \<and> (10 ^ 6 \<le> receipt_number r \<longrightarrow> 14 < length r)"
    proof (intro conjI impI)
      assume "receipt_number r < 10 ^ 6"
      then have "k < 10 ^ 6" using n by simp
      then have "length (str_nat k) \<le> 6" by (intro length_str_nat_le) simp_all
      then show "length r = 14" using l by simp
    next
      assume "10 ^ 6 \<le> receipt_number r"
      then have "10 ^ 6 \<le> k" using n by simp
      then have "6 < length (str_nat k)" by (rule length_str_nat_gt)
      then show "14 < length r" using l by simp
    qed
  qed
  have count: "length (receipts outs) =
         length (filter (\<lambda>c. {''job_id'', ''student_id'', ''content''} \<subseteq> fst ` set (fst c)
                             \<and> \<not> snd c < FAILURE_RATE) calls)"
    using submit_all_count[OF run] unfolding missing_fields_empty_iff .
  from len each rec count cnt srt wid show ?thesis by blast
qed

lemma missing_w_app: "missing_fields w_app = []"
  by (simp add: missing_fields_def required_fields_def w_app_def)

lemma w_run:
  "submit_all new_portal
     [(w_app, 1 / 2), ([(''student_id'', ()), (''content'', ())], 0), ([(''job_id'', ())], 0),
      ([(''job_id'', ()), (''content'', ())], 1 / 100), (w_app, 1 / 100), (w_app, 5 / 100)]
      = (\<lparr>app_counter = 2\<rparr>,
         [Inr \<lparr>status = ''submitted'', receipt_id = ''sandbox-000001''\<rparr>,
          Inl (ValueError ''Missing required application field(s): ['job_id']''),
          Inl (ValueError ''Missing required application field(s): ['student_id', 'content']''),
          Inl (ValueError ''Missing required application field(s): ['student_id']''),
          Inl (RuntimeError ''Submission failed due to random rejection (sandbox mode).''),
          Inr \<lparr>status = ''submitted'', receipt_id = ''sandbox-000002''\<rparr>])"
  by code_simp

text \<open>
  The theorem at a concrete sequence: a success, an application without \<open>job_id\<close>, one with
  \<open>job_id\<close> only, one without \<open>student_id\<close>, a rejection, a success.
\<close>

theorem portal_receipts_witness:
  "submit_all new_portal
     [(w_app, 1 / 2), ([(''student_id'', ()), (''content'', ())], 0), ([(''job_id'', ())], 0),
      ([(''job_id'', ()), (''content'', ())], 1 / 100), (w_app, 1 / 100), (w_app, 5 / 100)]
      = (\<lparr>app_counter = 2\<rparr>,
         [Inr \<lparr>status = ''submitted'', receipt_id = ''sandbox-000001''\<rparr>,
          Inl (ValueError ''Missing required application field(s): ['job_id']''),
          Inl (ValueError ''Missing required application field(s): ['student_id', 'content']''),
          Inl (ValueError ''Missing required application field(s): ['student_id']''),
          Inl (RuntimeError ''Submission failed due to random rejection (sandbox mode).''),
          Inr \<lparr>status = ''submitted'', receipt_id = ''sandbox-000002''\<rparr>])
   \<and> ''job_id'' \<notin> fst ` set [(''student_id'', ()), (''content'', ())]
   \<and> Inl (ValueError ''Missing required application field(s): ['job_id']'')
       = (Inl (ValueError (''Missing required application field(s): ''
            @ repr_list (filter (\<lambda>field. field \<notin> fst ` set [(''student_id'', ()), (''content'', ())])
                           [''job_id'', ''student_id'', ''content'']))) :: error + submission)
   \<and> receipts [Inr \<lparr>status = ''submitted'', receipt_id = ''sandbox-000001''\<rparr>,
          Inl (ValueError ''Missing required application field(s): ['job_id']''),
          Inl (ValueError ''Missing required application field(s): ['student_id', 'content']''),
          Inl (ValueError ''Missing required application field(s): ['student_id']''),
          Inl (RuntimeError ''Submission failed due to random rejection (sandbox mode).''),
          Inr \<lparr>status = ''submitted'', receipt_id = ''sandbox-000002''\<rparr>]
        = [''sandbox-000001'', ''sandbox-000002'']
   \<and> sorted_wrt (<) (map receipt_number [''sandbox-000001'', ''sandbox-000002''])
   \<and> length ''sandbox-000002'' = 14"
proof -
  let ?calls = "[(w_app, 1 / 2), ([(''student_id'', ()), (''content'', ())], 0), ([(''job_id'', ())], 0),
      ([(''job_id'', ()), (''content'', ())], 1 / 100), (w_app, 1 / 100), (w_app, 5 / 100)]
      :: ((string \<times> unit) list \<times> rat) list"
  let ?outs = "[Inr \<lparr>status = ''submitted'', receipt_id = ''sandbox-000001''\<rparr>,
          Inl (ValueError ''Missing required application field(s): ['job_id']''),
          Inl (ValueError ''Missing required application field(s): ['student_id', 'content']''),
          Inl (ValueError ''Missing required application field(s): ['student_id']''),
          Inl (RuntimeError ''Submission failed due to random rejection (sandbox mode).''),
          Inr \<lparr>status = ''submitted'', receipt_id = ''sandbox-000002''\<rparr>]"
  have r: "receipts ?outs = [''sandbox-000001'', ''sandbox-000002'']"
    by (simp add: receipts_def)
  note t = portal_receipts[OF w_run]
  have k: "''job_id'' \<notin> fst ` set [(''student_id'', ()), (''content'', ())]" by simp
  have i: "(1::nat) < length ?calls" by simp
  have c: "?calls ! 1 = ([(''student_id'', ()), (''content'', ())], 0)" by simp
  have o: "?outs ! 1 = Inl (ValueError ''Missing required application field(s): ['job_id']'')" by simp
  from t[THEN conjunct2, THEN conjunct1, THEN spec, THEN mp, OF i, THEN conjunct1]
  have m: "Inl (ValueError ''Missing required application field(s): ['job_id']'')
       = (Inl (ValueError (''Missing required application field(s): ''
            @ repr_list (filter (\<lambda>field. field \<notin> fst ` set [(''student_id'', ()), (''content'', ())])
                           [''job_id'', ''student_id'', ''content'']))) :: error + submission)"
    unfolding c o fst_conv using k by blast
  note s = t[THEN conjunct2, THEN conjunct2, THEN conjunct2, THEN conjunct2, THEN conjunct2, THEN conjunct1]
  have s': "sorted_wrt (<) (map receipt_number [''sandbox-000001'', ''sandbox-000002''])"
    using s unfolding r .
  have l: "length ''sandbox-000002'' = 14" by simp
  show ?thesis by (intro conjI) (rule w_run, rule k, rule m, rule r, rule s', rule l)
qed

lemma last_map_upt: "0 < n \<Longrightarrow> last (map f [a ..< a + n]) = f (a + n - 1)"
proof -
  assume "0 < n"
  then have ne: "[a ..< a + n] \<noteq> []" by simp
  have "last [a ..< a + n] = a + n - 1" using \<open>0 < n\<close> by (cases n) simp_all
  with ne show ?thesis by (simp add: last_map)
qed

lemma replicate_success_last:
  fixes app :: "(string \<times> 'v) list"
  assumes ok: "missing_fields app = []" "\<not> draw < FAILURE_RATE"
  shows "last (receipts (snd (submit_all new_portal (replicate (Suc n) (app, draw)))))
         = ''sandbox-'' @ zero_pad 6 (str_nat (Suc n))"
proof -
  let ?calls = "replicate (Suc n) (app, draw)"
  obtain s outs where run: "submit_all new_portal ?calls = (s, outs)"
    by (cases "submit_all new_portal ?calls")
  have "filter (\<lambda>c. missing_fields (fst c) = [] \<and> \<not> snd c < FAILURE_RATE) ?calls = ?calls"
    using ok by (intro filter_True) simp
  then have m: "length (receipts outs) = Suc n"
    using submit_all_count[OF run] by simp
  have "receipts outs = map (\<lambda>k. ''sandbox-'' @ zero_pad 6 (str_nat k)) [0 + 1 ..< 0 + 1 + Suc n]"
    using submit_all_receipts[OF run] unfolding m by (simp only: new_portal_def SandboxJobPortal.simps)
  then have "last (receipts outs) = ''sandbox-'' @ zero_pad 6 (str_nat (0 + 1 + Suc n - 1))"
    by (simp only: last_map_upt[OF zero_less_Suc])
  then show ?thesis by (simp only: run snd_conv add_0 diff_Suc_1 plus_1_eq_Suc)
qed

text \<open>
  The claim as the specification words it (always six digits) fails at the millionth
  successful submission of one portal instance.
\<close>

theorem receipt_width_counterexample:
  "last (receipts (snd (submit_all new_portal (replicate 1000000 (w_app, 1 / 2))))) = ''sandbox-1000000''
   \<and> length ''sandbox-1000000'' \<noteq> length ''sandbox-000001''"
proof -
  have n: "(1000000::nat) = Suc 999999" by simp
  have ok: "missing_fields w_app = []" "\<not> (1 / 2 :: rat) < FAILURE_RATE"
    by (simp_all add: missing_w_app FAILURE_RATE_def)
  have z: "''sandbox-'' @ zero_pad 6 (str_nat (Suc 999999)) = ''sandbox-1000000''"
    by (simp add: str_nat.simps digit_char_def zero_pad_def)
  have "last (receipts (snd (submit_all new_portal (replicate (Suc 999999) (w_app, 1 / 2)))))
        = ''sandbox-1000000''"
    by (rule trans[OF replicate_success_last[OF ok] z])
  then have "last (receipts (snd (submit_all new_portal (replicate 1000000 (w_app, 1 / 2)))))
        = ''sandbox-1000000''" unfolding n .
  moreover have "length ''sandbox-1000000'' \<noteq> length ''sandbox-000001''" by simp
  ultimately show ?thesis by (rule conjI)
qed

section \<open>Properties of the scorer\<close>

lemma overlap_bounds:
  fixes A B :: "string set"
  assumes "finite A" "A \<noteq> {}"
  shows "0 \<le> (of_nat (card (A \<inter> B)) / of_nat (card A) :: rat)"
    and "(of_nat (card (A \<inter> B)) / of_nat (card A) :: rat) \<le> 1"
proof -
  show "0 \<le> (of_nat (card (A \<inter> B)) / of_nat (card A) :: rat)" by simp
  have "card (A \<inter> B) \<le> card A" using assms(1) by (intro card_mono) auto
  moreover have "0 < card A" using assms by (simp add: card_gt_0_iff)
  ultimately show "(of_nat (card (A \<inter> B)) / of_nat (card A) :: rat) \<le> 1"
    by (simp add: divide_le_eq_1)
qed

text \<open>
  Claim C6, with the example recomputed. For every student pack and job the score is
  \<open>0.5 \<times> skill_overlap + 0.3 \<times> experience_fit + 0.2 \<times> constraint_match\<close> clamped to \<open>[0, 1]\<close>,
  with \<open>skill_overlap\<close> the share of the distinct required skills found in the vocabulary
  (\<open>1\<close> when none is required), \<open>experience_fit\<close> equal to \<open>1\<close> exactly when the job asks for
  zero years and \<open>0\<close> otherwise, and \<open>constraint_match = 1\<close>. For the required skills python
  and sql, a vocabulary with python and without sql, and zero years, the overlap is \<open>0.5\<close> and
  the score is \<open>0.75\<close>.
\<close>

theorem score_job_match_formula:
  "score (score_job_match student job) =
      max 0 (min 1 (5 / 10 * skill_overlap (explanation (score_job_match student job))
                  + 3 / 10 * experience_fit (explanation (score_job_match student job))
                  + 2 / 10 * constraint_match (explanation (score_job_match student job))))
   \<and> skill_overlap (explanation (score_job_match student job)) =
        (if set (required_skills job) = {} then 1
         else of_nat (card (set (required_skills job) \<inter> set (skill_vocab student)))
              / of_nat (card (set (required_skills job))))
   \<and> experience_fit (explanation (score_job_match student job)) =
        (if min_experience_years job = 0 then 1 else 0)
   \<and> constraint_match (explanation (score_job_match student job)) = 1
   \<and> 0 \<le> score (score_job_match student job) \<and> score (score_job_match student job) \<le> 1
   \<and> (set (required_skills job) = {''python'', ''sql''}
        \<and> ''python'' \<in> set (skill_vocab student) \<and> ''sql'' \<notin> set (skill_vocab student)
        \<and> min_experience_years job = 0
        \<longrightarrow> skill_overlap (explanation (score_job_match student job)) = 5 / 10
          \<and> score (score_job_match student job) = 75 / 100)"
proof -
  have ex: "set (required_skills job) = {''python'', ''sql''}
        \<and> ''python'' \<in> set (skill_vocab student) \<and> ''sql'' \<notin> set (skill_vocab student)
        \<and> min_experience_years job = 0
        \<longrightarrow> skill_overlap (explanation (score_job_match student job)) = 5 / 10
          \<and> score (score_job_match student job) = 75 / 100"
  proof (intro impI, elim conjE)
    assume r: "set (required_skills job) = {''python'', ''sql''}"
      and p: "''python'' \<in> set (skill_vocab student)" and s: "''sql'' \<notin> set (skill_vocab student)"
      and m: "min_experience_years job = 0"
    have i: "{''python'', ''sql''} \<inter> set (skill_vocab student) = {''python''}" using p s by auto
    have c: "card {''python'', ''sql''} = 2" by simp
    show "skill_overlap (explanation (score_job_match student job)) = 5 / 10
          \<and> score (score_job_match student job) = 75 / 100"
      by (simp add: score_job_match_def Let_def r i m c)
  qed
  show ?thesis
    using ex overlap_bounds[of "set (required_skills job)" "set (skill_vocab student)"]
    by (auto simp: score_job_match_def Let_def)
qed

text \<open>The example of the specification, evaluated through the theorem.\<close>

theorem score_job_match_formula_witness:
  "set (required_skills w_job) = {''python'', ''sql''}
   \<and> ''python'' \<in> set (skill_vocab w_student) \<and> ''sql'' \<notin> set (skill_vocab w_student)
   \<and> min_experience_years w_job = 0
   \<and> skill_overlap (explanation (score_job_match w_student w_job)) = 5 / 10
   \<and> score (score_job_match w_student w_job) = 75 / 100"
proof -
  have h: "set (required_skills w_job) = {''python'', ''sql''}
   \<and> ''python'' \<in> set (skill_vocab w_student) \<and> ''sql'' \<notin> set (skill_vocab w_student)
   \<and> min_experience_years w_job = 0"
    by (simp add: w_job_def w_student_def)
  note t = score_job_match_formula[of w_student w_job]
  note e = t[THEN conjunct2, THEN conjunct2, THEN conjunct2, THEN conjunct2, THEN conjunct2, THEN conjunct2]
  from e h have "skill_overlap (explanation (score_job_match w_student w_job)) = 5 / 10
          \<and> score (score_job_match w_student w_job) = 75 / 100" by (rule mp)
  with h show ?thesis by blast
qed

text \<open>
  The specification states \<open>0.85\<close> for this input; \<open>0.5 \<times> 0.5 + 0.3 + 0.2\<close> is \<open>0.75\<close>.
\<close>

theorem score_example_counterexample:
  "score (score_job_match
      \<lparr>source_resume_hash = ''h1'', skill_vocab = [''python''], education = [], projects = [],
       constraints = None\<rparr>
      \<lparr>job_id = ''j1'', company = ''Acme'', role = ''Engineer'', location = ''Remote'',
       required_skills = [''python'', ''sql''], min_experience_years = 0\<rparr>) \<noteq> 85 / 100"
  by (simp add: score_job_match_def Let_def)

section \<open>Properties of the content generator\<close>

lemma relevant_empty_iff:
  "relevant_verified_bullets student job = [] \<longleftrightarrow>
   (\<forall>project \<in> set (projects student). \<forall>bullet \<in> set (bullets project).
       set (skills bullet) \<inter> set (required_skills job) = {})"
  by (auto simp: relevant_verified_bullets_def filter_empty_conv)

lemma relevant_verified_bullets_filter:
  "relevant_verified_bullets student job =
     filter (\<lambda>bullet. set (skills bullet) \<inter> set (required_skills job) \<noteq> {})
       (concat (map bullets (projects student)))"
  by (simp add: relevant_verified_bullets_def filter_concat comp_def)

text \<open>
  Claim C7, as the code has it. For every student pack and job the generator returns no
  content exactly when no bullet of any project shares a skill with the job's required
  skills, and then the skip reason is \<open>NO_RELEVANT_VERIFIED_BULLETS\<close>. Otherwise it returns no
  skip reason, an empty answers map, and as selection the first three (at most three) of the
  relevant bullets: the bullets of all projects, in project and bullet order, that share a
  skill with the job. The cover paragraph is the template with the descriptions of all
  relevant bullets joined by a comma and a space; these are the descriptions of the returned
  selection whenever at most three bullets are relevant.
\<close>

theorem generate_application_content_result:
  "(fst (generate_application_content student job) = None \<longleftrightarrow>
      (\<forall>project \<in> set (projects student). \<forall>bullet \<in> set (bullets project).
         set (skills bullet) \<inter> set (required_skills job) = {}))
   \<and> (fst (generate_application_content student job) = None \<longrightarrow>
        snd (generate_application_content student job) = Some ''NO_RELEVANT_VERIFIED_BULLETS'')
   \<and> (\<forall>content. fst (generate_application_content student job) = Some content \<longrightarrow>
        snd (generate_application_content student job) = None
        \<and> selected_bullets content =
            take 3 (filter (\<lambda>bullet. set (skills bullet) \<inter> set (required_skills job) \<noteq> {})
                      (concat (map bullets (projects student))))
        \<and> length (selected_bullets content) \<le> 3
        \<and> cover_paragraph content =
            ''I am applying for the '' @ role job @ '' position. My background includes ''
            @ join '', ''
                (map description
                   (filter (\<lambda>bullet. set (skills bullet) \<inter> set (required_skills job) \<noteq> {})
                      (concat (map bullets (projects student)))))
            @ ''.''
        \<and> (length (filter (\<lambda>bullet. set (skills bullet) \<inter> set (required_skills job) \<noteq> {})
                      (concat (map bullets (projects student)))) \<le> 3 \<longrightarrow>
             cover_paragraph content =
               ''I am applying for the '' @ role job @ '' position. My background includes ''
               @ join '', '' (map description (selected_bullets content)) @ ''.'')
        \<and> answers content = [])"
  unfolding relevant_empty_iff[symmetric] relevant_verified_bullets_filter[symmetric]
  by (auto simp: generate_application_content_def Let_def)

lemma w_generate:
  "generate_application_content w_student w_job =
     (Some \<lparr>selected_bullets = [w_bullet ''a'' [''python''], w_bullet ''b'' [''python''],
                                w_bullet ''c'' [''python'']],
            cover_paragraph = ''I am applying for the Engineer position. My background includes a, b, c, d.'',
            answers = []\<rparr>, None)"
  by (simp add: generate_application_content_def relevant_verified_bullets_def Let_def
        w_student_def w_job_def w_bullet_def)

lemma w_generate2:
  "generate_application_content w_student2 w_job =
     (Some \<lparr>selected_bullets = [w_bullet ''a'' [''python''], w_bullet ''b'' [''go'', ''python''],
                                w_bullet ''c'' [''sql'']],
            cover_paragraph = ''I am applying for the Engineer position. My background includes a, b, c, d.'',
            answers = []\<rparr>, None)"
  by (simp add: generate_application_content_def relevant_verified_bullets_def Let_def
        w_student2_def w_job_def w_bullet_def)

text \<open>
  A student with two projects, four relevant bullets and two that are not: content is
  returned, and the selection is the first three relevant bullets across the projects.
\<close>

theorem generate_application_content_result_witness:
  "fst (generate_application_content w_student2 w_job) =
     Some \<lparr>selected_bullets = [w_bullet ''a'' [''python''], w_bullet ''b'' [''go'', ''python''],
                                w_bullet ''c'' [''sql'']],
            cover_paragraph = ''I am applying for the Engineer position. My background includes a, b, c, d.'',
            answers = []\<rparr>
   \<and> snd (generate_application_content w_student2 w_job) = None
   \<and> take 3 (filter (\<lambda>bullet. set (skills bullet) \<inter> set (required_skills w_job) \<noteq> {})
               (concat (map bullets (projects w_student2)))) =
        [w_bullet ''a'' [''python''], w_bullet ''b'' [''go'', ''python''], w_bullet ''c'' [''sql'']]"
proof -
  let ?c = "\<lparr>selected_bullets = [w_bullet ''a'' [''python''], w_bullet ''b'' [''go'', ''python''],
                                w_bullet ''c'' [''sql'']],
            cover_paragraph = ''I am applying for the Engineer position. My background includes a, b, c, d.'',
            answers = []\<rparr>"
  have f: "fst (generate_application_content w_student2 w_job) = Some ?c"
    by (simp add: w_generate2)
  note t = generate_application_content_result[of w_student2 w_job, THEN conjunct2, THEN conjunct2]
  from t f have r: "snd (generate_application_content w_student2 w_job) = None
        \<and> selected_bullets ?c =
            take 3 (filter (\<lambda>bullet. set (skills bullet) \<inter> set (required_skills w_job) \<noteq> {})
                      (concat (map bullets (projects w_student2))))" by blast
  then have "take 3 (filter (\<lambda>bullet. set (skills bullet) \<inter> set (required_skills w_job) \<noteq> {})
               (concat (map bullets (projects w_student2)))) =
        [w_bullet ''a'' [''python''], w_bullet ''b'' [''go'', ''python''], w_bullet ''c'' [''sql'']]"
    by simp
  with f r show ?thesis by blast
qed

text \<open>
  With four relevant bullets the paragraph lists four descriptions, not those of the three
  selected bullets, which the claim as stated asks for.
\<close>

theorem cover_paragraph_counterexample:
  "cover_paragraph (the (fst (generate_application_content w_student w_job))) =
     ''I am applying for the Engineer position. My background includes a, b, c, d.''
   \<and> ''I am applying for the '' @ role w_job @ '' position. My background includes ''
       @ join '', '' (map description
            (selected_bullets (the (fst (generate_application_content w_student w_job))))) @ ''.''
     = ''I am applying for the Engineer position. My background includes a, b, c.''
   \<and> cover_paragraph (the (fst (generate_application_content w_student w_job))) \<noteq>
       ''I am applying for the '' @ role w_job @ '' position. My background includes ''
       @ join '', '' (map description
            (selected_bullets (the (fst (generate_application_content w_student w_job))))) @ ''.''"
  unfolding w_generate by (simp add: w_job_def w_bullet_def)

section \<open>Properties of the draft and snapshot models\<close>

lemma messages_empty_iff: "messages rs = [] \<longleftrightarrow> (\<forall>r \<in> set rs. r = None)"
  by (induction rs) (auto simp: messages_def split: option.splits)

lemma find_SomeD: "find P xs = Some x \<Longrightarrow> x \<in> set xs \<and> P x"
  by (auto simp: find_Some_iff)

lemma find_is_None: "(find P xs = None) = (\<forall>x \<in> set xs. \<not> P x)"
  by (auto simp: find_None_iff)

lemma in_pack_bullets:
  "b \<in> set (pack_bullets pack) \<longleftrightarrow>
     (\<exists>project \<in> set (get_or (pk_projects pack) []). b \<in> set (get_or (pd_bullets project) []))"
  by (auto simp: pack_bullets_def)

lemma flag_truthy_iff:
  "truthy (get_or (bd_verified b) (PyBool False)) \<longleftrightarrow> (\<exists>v. bd_verified b = Some v \<and> truthy v)"
  by (cases "bd_verified b") (auto simp: get_or_def)

lemma draft_fails_iff:
  "isl (new_DraftArtifactPack pack st ts h) \<longleftrightarrow>
     (\<exists>b \<in> set (pack_bullets pack). truthy (get_or (bd_verified b) (PyBool False))) \<or> st \<noteq> ''DRAFT''"
  by (auto simp: new_DraftArtifactPack_def Let_def messages_empty_iff validate_no_verified_bullets_def
        validate_status_is_draft_def find_is_None split: option.splits dest: find_SomeD)

lemma snapshot_fails_if_unverified:
  "\<exists>b \<in> set (pack_bullets pack). \<not> truthy (get_or (bd_verified b) (PyBool False)) \<Longrightarrow>
   isl (new_ArtifactSnapshot sid uid pack ts rh ph frz meta)"
  by (auto simp: new_ArtifactSnapshot_def Let_def messages_empty_iff
        validate_student_artifact_pack_structure_def find_is_None split: option.splits dest: find_SomeD)

text \<open>
  Claim C2, as the code has it. Both validators read the flag with
  \<open>bullet.get('verified', False)\<close> and test its truth value. For every bullet of every project
  of the wrapped pack: constructing a DraftArtifactPack fails when the bullet's flag is
  present and truthy, in particular when it is \<open>true\<close>; constructing an ArtifactSnapshot
  fails when the flag is absent or falsy, in particular when it is \<open>false\<close>; and at least one
  of the two constructions fails, whatever the other arguments are, so for a pack with at
  least one bullet at most one of them can succeed.
\<close>

theorem draft_snapshot_exclusive:
  "\<forall>project \<in> set (get_or (pk_projects pack) []). \<forall>bullet \<in> set (get_or (pd_bullets project) []).
     ((\<exists>v. bd_verified bullet = Some v \<and> truthy v) \<longrightarrow> isl (new_DraftArtifactPack pack st ts h))
     \<and> (bd_verified bullet = Some (PyBool True) \<longrightarrow> isl (new_DraftArtifactPack pack st ts h))
     \<and> (bd_verified bullet = None \<or> (\<exists>v. bd_verified bullet = Some v \<and> \<not> truthy v) \<longrightarrow>
          isl (new_ArtifactSnapshot sid uid pack ts' rh ph frz meta))
     \<and> (bd_verified bullet = Some (PyBool False) \<longrightarrow>
          isl (new_ArtifactSnapshot sid uid pack ts' rh ph frz meta))
     \<and> (isl (new_DraftArtifactPack pack st ts h)
          \<or> isl (new_ArtifactSnapshot sid uid pack ts' rh ph frz meta))"
proof (intro ballI)
  fix project bullet
  assume "project \<in> set (get_or (pk_projects pack) [])" "bullet \<in> set (get_or (pd_bullets project) [])"
  then have b: "bullet \<in> set (pack_bullets pack)" by (auto simp: in_pack_bullets)
  have d: "isl (new_DraftArtifactPack pack st ts h)" if "\<exists>v. bd_verified bullet = Some v \<and> truthy v"
  proof -
    from that have "truthy (get_or (bd_verified bullet) (PyBool False))" by (simp add: flag_truthy_iff)
    with b show ?thesis unfolding draft_fails_iff by blast
  qed
  have s: "isl (new_ArtifactSnapshot sid uid pack ts' rh ph frz meta)"
    if "\<not> (\<exists>v. bd_verified bullet = Some v \<and> truthy v)"
  proof -
    from that have "\<not> truthy (get_or (bd_verified bullet) (PyBool False))" by (simp add: flag_truthy_iff)
    with b show ?thesis by (intro snapshot_fails_if_unverified) blast
  qed
  have s1: "isl (new_ArtifactSnapshot sid uid pack ts' rh ph frz meta)"
    if "bd_verified bullet = None \<or> (\<exists>v. bd_verified bullet = Some v \<and> \<not> truthy v)"
    using that by (intro s) auto
  have s2: "isl (new_ArtifactSnapshot sid uid pack ts' rh ph frz meta)"
    if "bd_verified bullet = Some (PyBool False)"
    using that by (intro s) auto
  have d2: "isl (new_DraftArtifactPack pack st ts h)" if "bd_verified bullet = Some (PyBool True)"
    using that by (intro d) auto
  have e: "isl (new_DraftArtifactPack pack st ts h)
          \<or> isl (new_ArtifactSnapshot sid uid pack ts' rh ph frz meta)"
    using d s by blast
  from d d2 s1 s2 e
  show "((\<exists>v. bd_verified bullet = Some v \<and> truthy v) \<longrightarrow> isl (new_DraftArtifactPack pack st ts h))
     \<and> (bd_verified bullet = Some (PyBool True) \<longrightarrow> isl (new_DraftArtifactPack pack st ts h))
     \<and> (bd_verified bullet = None \<or> (\<exists>v. bd_verified bullet = Some v \<and> \<not> truthy v) \<longrightarrow>
          isl (new_ArtifactSnapshot sid uid pack ts' rh ph frz meta))
     \<and> (bd_verified bullet = Some (PyBool False) \<longrightarrow>
          isl (new_ArtifactSnapshot sid uid pack ts' rh ph frz meta))
     \<and> (isl (new_DraftArtifactPack pack st ts h)
          \<or> isl (new_ArtifactSnapshot sid uid pack ts' rh ph frz meta))"
    by blast
qed

text \<open>
  A pack whose second project holds an unverified and a verified bullet is rejected by both
  constructors; a pack with only the unverified bullet makes a draft, one with only the
  verified bullet a snapshot.
\<close>

theorem draft_snapshot_exclusive_witness:
  "isl (new_DraftArtifactPack (w_pack2 [w_bullet_dict ''a'' False, w_bullet_dict ''b'' True])
          ''DRAFT'' 0 ''ph'')
   \<and> isl (new_ArtifactSnapshot ''s1'' 1 (w_pack2 [w_bullet_dict ''a'' False, w_bullet_dict ''b'' True])
            0 ''h1'' ''ph'' True w_metadata)
   \<and> \<not> isl (new_DraftArtifactPack (w_pack2 [w_bullet_dict ''a'' False]) ''DRAFT'' 0 ''ph'')
   \<and> \<not> isl (new_ArtifactSnapshot ''s1'' 1 (w_pack2 [w_bullet_dict ''b'' True]) 0 ''h1'' ''ph'' True w_metadata)"
proof -
  let ?bs = "[w_bullet_dict ''a'' False, w_bullet_dict ''b'' True]"
  let ?p = "w_pack2 ?bs"
  let ?q = "\<lparr>pd_name = Some ''p1'', pd_description = Some ''indexer'',
             pd_skills = Some [''python''], pd_bullets = Some ?bs\<rparr>"
  have q: "?q \<in> set (get_or (pk_projects ?p) [])" by (simp add: w_pack2_def get_or_def)
  have a: "w_bullet_dict ''a'' False \<in> set (get_or (pd_bullets ?q) [])"
    and b: "w_bullet_dict ''b'' True \<in> set (get_or (pd_bullets ?q) [])"
    by (simp_all add: get_or_def)
  note t = draft_snapshot_exclusive[of ?p "''DRAFT''" 0 "''ph''" "''s1''" 1 0 "''h1''" "''ph''" True w_metadata]
  have hb: "bd_verified (w_bullet_dict ''b'' True) = Some (PyBool True)"
    and ha: "bd_verified (w_bullet_dict ''a'' False) = Some (PyBool False)"
    by (simp_all add: w_bullet_dict_def)
  have c1: "isl (new_DraftArtifactPack ?p ''DRAFT'' 0 ''ph'')"
    using t[THEN bspec, OF q, THEN bspec, OF b] hb by blast
  have c2: "isl (new_ArtifactSnapshot ''s1'' 1 ?p 0 ''h1'' ''ph'' True w_metadata)"
    using t[THEN bspec, OF q, THEN bspec, OF a] ha by blast
  have d: "\<not> isl (new_DraftArtifactPack (w_pack2 [w_bullet_dict ''a'' False]) ''DRAFT'' 0 ''ph'')"
    by (simp add: new_DraftArtifactPack_def messages_def validate_no_verified_bullets_def
          validate_status_is_draft_def pack_bullets_def w_pack2_def w_bullet_dict_def get_or_def)
  have s: "\<not> isl (new_ArtifactSnapshot ''s1'' 1 (w_pack2 [w_bullet_dict ''b'' True]) 0 ''h1'' ''ph'' True w_metadata)"
    by (simp add: new_ArtifactSnapshot_def messages_def validate_student_artifact_pack_structure_def
          validate_frozen_always_true_def validate_approval_metadata_def metadata_keys_def
          pack_keys_def pack_bullets_def w_pack2_def w_bullet_dict_def w_metadata_def get_or_def)
  from c1 c2 d s show ?thesis by blast
qed

text \<open>
  The claim as the specification words it (the snapshot fails for every bullet that does not
  have \<open>verified == true\<close>) fails for a flag that is truthy without being \<open>true\<close>: the
  string \<open>"false"\<close>, which a confirmation entry can carry into the approved pack.
\<close>

theorem snapshot_truthy_flag_counterexample:
  "bd_verified (w_bullet_flag ''a'' (PyStr ''false'')) \<noteq> Some (PyBool True)
   \<and> get_or (pd_bullets (hd (get_or (pk_projects (w_pack [w_bullet_flag ''a'' (PyStr ''false'')])) []))) []
       = [w_bullet_flag ''a'' (PyStr ''false'')]
   \<and> new_ArtifactSnapshot ''s1'' 7 (w_pack [w_bullet_flag ''a'' (PyStr ''false'')]) 60 ''h1'' ''ph'' True
        w_metadata
      = Inr (w_snapshot (w_pack [w_bullet_flag ''a'' (PyStr ''false'')]) True)"
  by (simp add: new_ArtifactSnapshot_def messages_def validate_student_artifact_pack_structure_def
        validate_frozen_always_true_def validate_approval_metadata_def metadata_keys_def
        pack_keys_def pack_bullets_def w_pack_def w_bullet_flag_def w_metadata_def get_or_def
        w_snapshot_def)

section \<open>Properties of the approval service\<close>

lemma find_Some_split:
  "find P xs = Some b \<Longrightarrow> \<exists>pre post. xs = pre @ b # post \<and> (\<forall>y \<in> set pre. \<not> P y) \<and> P b"
proof (induction xs)
  case Nil then show ?case by simp
next
  case (Cons x xs)
  show ?case
  proof (cases "P x")
    case True
    with Cons.prems have "x = b" by simp
    with True have "x # xs = [] @ b # xs \<and> (\<forall>y \<in> set []. \<not> P y) \<and> P b" by simp
    then show ?thesis by blast
  next
    case False
    with Cons.prems have "find P xs = Some b" by simp
    from Cons.IH[OF this] obtain pre post where
      "xs = pre @ b # post" "\<forall>y \<in> set pre. \<not> P y" "P b" by blast
    with False have "x # xs = (x # pre) @ b # post \<and> (\<forall>y \<in> set (x # pre). \<not> P y) \<and> P b" by simp
    then show ?thesis by blast
  qed
qed

lemma set_enumerate_bullets:
  "(\<lambda>(j, bullet). bullet_id_of i j) ` set (enumerate 0 bs) = {bullet_id_of i j | j. j < length bs}"
proof (intro equalityI subsetI)
  fix x assume "x \<in> (\<lambda>(j, bullet). bullet_id_of i j) ` set (enumerate 0 bs)"
  then obtain j b where "(j, b) \<in> set (enumerate 0 bs)" "x = bullet_id_of i j" by auto
  then have "j < length bs" "x = bullet_id_of i j" by (simp_all add: in_set_enumerate_eq)
  then show "x \<in> {bullet_id_of i j | j. j < length bs}" by blast
next
  fix x assume "x \<in> {bullet_id_of i j | j. j < length bs}"
  then obtain j where j: "j < length bs" "x = bullet_id_of i j" by blast
  then have "(j, bs ! j) \<in> set (enumerate 0 bs)" by (simp add: in_set_enumerate_eq)
  then have "(\<lambda>(j, bullet). bullet_id_of i j) (j, bs ! j) \<in> (\<lambda>(j, bullet). bullet_id_of i j) ` set (enumerate 0 bs)"
    by (rule imageI)
  with j show "x \<in> (\<lambda>(j, bullet). bullet_id_of i j) ` set (enumerate 0 bs)" by simp
qed

lemma set_extract_bullets:
  "set (extract_bullets_from_draft pack) =
     {bullet_id_of i j | i j.
        i < length (get_or (pk_projects pack) [])
        \<and> j < length (get_or (pd_bullets (get_or (pk_projects pack) [] ! i)) [])}"
proof -
  let ?ps = "get_or (pk_projects pack) []"
  have e: "set (extract_bullets_from_draft pack) =
      (\<Union>ip \<in> set (enumerate 0 ?ps). {bullet_id_of (fst ip) j | j. j < length (get_or (pd_bullets (snd ip)) [])})"
    unfolding extract_bullets_from_draft_def set_concat set_map image_image
    by (simp add: case_prod_beta set_enumerate_bullets[symmetric])
  show ?thesis
  proof (intro equalityI subsetI)
    fix x assume "x \<in> set (extract_bullets_from_draft pack)"
    then obtain ip j where ip: "ip \<in> set (enumerate 0 ?ps)"
      and j: "j < length (get_or (pd_bullets (snd ip)) [])" "x = bullet_id_of (fst ip) j"
      unfolding e by blast
    from ip have "fst ip < length ?ps" "?ps ! fst ip = snd ip" by (simp_all add: in_set_enumerate_eq)
    with j show "x \<in> {bullet_id_of i j | i j. i < length ?ps \<and> j < length (get_or (pd_bullets (?ps ! i)) [])}"
      by (intro CollectI exI[of _ "fst ip"] exI[of _ j]) simp
  next
    fix x assume "x \<in> {bullet_id_of i j | i j. i < length ?ps \<and> j < length (get_or (pd_bullets (?ps ! i)) [])}"
    then obtain i j where ij: "i < length ?ps" "j < length (get_or (pd_bullets (?ps ! i)) [])" "x = bullet_id_of i j"
      by blast
    then have "(i, ?ps ! i) \<in> set (enumerate 0 ?ps)" by (simp add: in_set_enumerate_eq)
    with ij show "x \<in> set (extract_bullets_from_draft pack)"
      unfolding e by (intro UN_I[of "(i, ?ps ! i)"]) auto
  qed
qed

lemma validate_user_confirmation_missing:
  assumes acc: "accuracy_confirmed c" and ne: "bullets_verified c \<noteq> []"
    and m: "\<exists>b \<in> set (extract_bullets_from_draft (draft_pack draft)). b \<notin> set (map bullet_id (bullets_verified c))"
  shows "\<exists>b pre post.
           extract_bullets_from_draft (draft_pack draft) = pre @ b # post
           \<and> set pre \<subseteq> set (map bullet_id (bullets_verified c))
           \<and> b \<notin> set (map bullet_id (bullets_verified c))
           \<and> validate_user_confirmation c draft = Inl (ValueError (''Bullet '' @ b @ '' not verified by user''))"
proof -
  let ?P = "\<lambda>b. b \<notin> set (map bullet_id (bullets_verified c))"
  let ?xs = "extract_bullets_from_draft (draft_pack draft)"
  from m have "find ?P ?xs \<noteq> None" by (auto simp: find_None_iff)
  then obtain b where f: "find ?P ?xs = Some b" by auto
  from find_Some_split[OF f] obtain pre post where
    s: "?xs = pre @ b # post" "\<forall>y \<in> set pre. \<not> ?P y" "?P b" by blast
  have "validate_user_confirmation c draft = Inl (ValueError (''Bullet '' @ b @ '' not verified by user''))"
    using acc ne f by (simp add: validate_user_confirmation_def Let_def)
  with s show ?thesis by blast
qed

lemma submit_for_approval_invalid:
  "validate_user_confirmation c draft = Inl e \<Longrightarrow>
   submit_for_approval sha256 isoformat new_uuid utcnow db draft c uid = (db, Inl e)"
  by (simp add: submit_for_approval_def)

text \<open>
  Claim C4. The validation runs in sequence and the first failure aborts. For every draft
  and confirmation, \<open>submit_for_approval\<close> raises the accuracy error when the accuracy flag is
  false; raises the at-least-one-bullet error when the flag is true and the verification
  list is empty; and, when both checks pass and some positional id \<open>project_i_bullet_j\<close> of the
  draft is not among the confirmed ids, raises the error naming a missing bullet, namely
  the first id of the draft, in project and bullet order, that is not confirmed. In each
  of these cases the call returns no snapshot and leaves the database as it was.
\<close>

theorem submit_for_approval_rejects:
  "(\<not> accuracy_confirmed c \<longrightarrow>
      submit_for_approval sha256 isoformat new_uuid utcnow db draft c uid
        = (db, Inl (ValueError ''User must confirm accuracy checkbox'')))
   \<and> (accuracy_confirmed c \<and> bullets_verified c = [] \<longrightarrow>
      submit_for_approval sha256 isoformat new_uuid utcnow db draft c uid
        = (db, Inl (ValueError ''User must verify at least one bullet'')))
   \<and> (\<forall>i j. accuracy_confirmed c \<and> bullets_verified c \<noteq> []
          \<and> i < length (get_or (pk_projects (draft_pack draft)) [])
          \<and> j < length (get_or (pd_bullets (get_or (pk_projects (draft_pack draft)) [] ! i)) [])
          \<and> bullet_id_of i j \<notin> set (map bullet_id (bullets_verified c))
        \<longrightarrow> (\<exists>b pre post.
               extract_bullets_from_draft (draft_pack draft) = pre @ b # post
               \<and> set pre \<subseteq> set (map bullet_id (bullets_verified c))
               \<and> b \<notin> set (map bullet_id (bullets_verified c))
               \<and> submit_for_approval sha256 isoformat new_uuid utcnow db draft c uid
                   = (db, Inl (ValueError (''Bullet '' @ b @ '' not verified by user'')))))
   \<and> (\<forall>i j. (\<not> accuracy_confirmed c \<or> bullets_verified c = []
          \<or> (i < length (get_or (pk_projects (draft_pack draft)) [])
             \<and> j < length (get_or (pd_bullets (get_or (pk_projects (draft_pack draft)) [] ! i)) [])
             \<and> bullet_id_of i j \<notin> set (map bullet_id (bullets_verified c))))
        \<longrightarrow> fst (submit_for_approval sha256 isoformat new_uuid utcnow db draft c uid) = db
          \<and> isl (snd (submit_for_approval sha256 isoformat new_uuid utcnow db draft c uid)))"
proof -
  let ?run = "submit_for_approval sha256 isoformat new_uuid utcnow db draft c uid"
  let ?ids = "set (map bullet_id (bullets_verified c))"
  have a: "\<not> accuracy_confirmed c \<Longrightarrow> ?run = (db, Inl (ValueError ''User must confirm accuracy checkbox''))"
    by (intro submit_for_approval_invalid) (simp add: validate_user_confirmation_def)
  have b: "accuracy_confirmed c \<Longrightarrow> bullets_verified c = [] \<Longrightarrow>
      ?run = (db, Inl (ValueError ''User must verify at least one bullet''))"
    by (intro submit_for_approval_invalid) (simp add: validate_user_confirmation_def)
  have m: "\<exists>b pre post.
               extract_bullets_from_draft (draft_pack draft) = pre @ b # post
               \<and> set pre \<subseteq> ?ids \<and> b \<notin> ?ids
               \<and> ?run = (db, Inl (ValueError (''Bullet '' @ b @ '' not verified by user'')))"
    if "accuracy_confirmed c" "bullets_verified c \<noteq> []"
      "i < length (get_or (pk_projects (draft_pack draft)) [])"
      "j < length (get_or (pd_bullets (get_or (pk_projects (draft_pack draft)) [] ! i)) [])"
      "bullet_id_of i j \<notin> ?ids" for i j
  proof -
    have "bullet_id_of i j \<in> set (extract_bullets_from_draft (draft_pack draft))"
      unfolding set_extract_bullets using that(3,4) by blast
    with that(5) have "\<exists>b \<in> set (extract_bullets_from_draft (draft_pack draft)). b \<notin> ?ids" by blast
    from validate_user_confirmation_missing[OF that(1,2) this] obtain b pre post where
      s: "extract_bullets_from_draft (draft_pack draft) = pre @ b # post" "set pre \<subseteq> ?ids" "b \<notin> ?ids"
        "validate_user_confirmation c draft = Inl (ValueError (''Bullet '' @ b @ '' not verified by user''))"
      by blast
    from submit_for_approval_invalid[OF s(4)] s(1,2,3) show ?thesis by blast
  qed
  have f: "fst ?run = db \<and> isl (snd ?run)"
    if "\<not> accuracy_confirmed c \<or> bullets_verified c = []
          \<or> (i < length (get_or (pk_projects (draft_pack draft)) [])
             \<and> j < length (get_or (pd_bullets (get_or (pk_projects (draft_pack draft)) [] ! i)) [])
             \<and> bullet_id_of i j \<notin> ?ids)" for i j
  proof (cases "accuracy_confirmed c")
    case False
    from a[OF this] show ?thesis by simp
  next
    case acc: True
    show ?thesis
    proof (cases "bullets_verified c = []")
      case True
      from b[OF acc this] show ?thesis by simp
    next
      case False
      with acc that m[OF acc False, of i j] show ?thesis by auto
    qed
  qed
  from a b m f show ?thesis by blast
qed

lemma w_extract: "extract_bullets_from_draft (draft_pack w_draft) = [''project_0_bullet_0'', ''project_0_bullet_1'']"
  by (simp add: extract_bullets_from_draft_def w_draft_def w_pack_def get_or_def enumerate_eq_zip
        bullet_id_of_def str_nat.simps digit_char_def upt_rec)

text \<open>
  The draft has the bullets \<open>project_0_bullet_0\<close> and \<open>project_0_bullet_1\<close>; a confirmation
  that lists only the first is rejected naming the second, and the two earlier checks are
  exercised as well.
\<close>

theorem submit_for_approval_rejects_witness:
  "submit_for_approval (\<lambda>s. s) str_nat ''u1'' 60 w_db w_draft
      (w_confirmation [w_bv ''project_0_bullet_0'' True]) 7
     = (w_db, Inl (ValueError ''Bullet project_0_bullet_1 not verified by user''))
   \<and> submit_for_approval (\<lambda>s. s) str_nat ''u1'' 60 w_db w_draft
      ((w_confirmation [w_bv ''project_0_bullet_0'' True])\<lparr>accuracy_confirmed := False\<rparr>) 7
     = (w_db, Inl (ValueError ''User must confirm accuracy checkbox''))
   \<and> submit_for_approval (\<lambda>s. s) str_nat ''u1'' 60 w_db w_draft (w_confirmation []) 7
     = (w_db, Inl (ValueError ''User must verify at least one bullet''))"
proof -
  let ?c = "w_confirmation [w_bv ''project_0_bullet_0'' True]"
  let ?run = "\<lambda>c. submit_for_approval (\<lambda>s. s) str_nat ''u1'' 60 w_db w_draft c 7"
  have ids: "set (map bullet_id (bullets_verified ?c)) = {''project_0_bullet_0''}"
    by (simp add: w_confirmation_def w_bv_def)
  have h: "accuracy_confirmed ?c \<and> bullets_verified ?c \<noteq> []
          \<and> 0 < length (get_or (pk_projects (draft_pack w_draft)) [])
          \<and> 1 < length (get_or (pd_bullets (get_or (pk_projects (draft_pack w_draft)) [] ! 0)) [])
          \<and> bullet_id_of 0 1 \<notin> set (map bullet_id (bullets_verified ?c))"
    unfolding ids
    by (simp add: w_confirmation_def w_bv_def w_draft_def w_pack_def get_or_def bullet_id_of_def
          str_nat.simps digit_char_def)
  note t = submit_for_approval_rejects[of _ "(\<lambda>s. s)" str_nat "''u1''" 60 w_db w_draft 7]
  from t[of ?c, THEN conjunct2, THEN conjunct2, THEN conjunct1, THEN spec, THEN spec, THEN mp, OF h]
  obtain b pre post where
    d: "extract_bullets_from_draft (draft_pack w_draft) = pre @ b # post"
      "set pre \<subseteq> set (map bullet_id (bullets_verified ?c))"
      "b \<notin> set (map bullet_id (bullets_verified ?c))"
      "?run ?c = (w_db, Inl (ValueError (''Bullet '' @ b @ '' not verified by user'')))"
    by blast
  have "b \<in> set (extract_bullets_from_draft (draft_pack w_draft))" unfolding d(1) by simp
  then have "b = ''project_0_bullet_0'' \<or> b = ''project_0_bullet_1''" unfolding w_extract by simp
  moreover have "b \<noteq> ''project_0_bullet_0''" using d(3) unfolding ids by blast
  ultimately have b: "b = ''project_0_bullet_1''" by blast
  have r1: "?run ?c = (w_db, Inl (ValueError ''Bullet project_0_bullet_1 not verified by user''))"
    using d(4) unfolding b by simp
  have "\<not> accuracy_confirmed (?c\<lparr>accuracy_confirmed := False\<rparr>)" by simp
  with t[of "?c\<lparr>accuracy_confirmed := False\<rparr>", THEN conjunct1]
  have r2: "?run (?c\<lparr>accuracy_confirmed := False\<rparr>) = (w_db, Inl (ValueError ''User must confirm accuracy checkbox''))"
    by (rule mp)
  have "accuracy_confirmed (w_confirmation []) \<and> bullets_verified (w_confirmation []) = []"
    by (simp add: w_confirmation_def)
  with t[of "w_confirmation []", THEN conjunct2, THEN conjunct1]
  have r3: "?run (w_confirmation []) = (w_db, Inl (ValueError ''User must verify at least one bullet''))"
    by (rule mp)
  from r1 r2 r3 show ?thesis by (intro conjI)
qed

section \<open>Properties of the engine\<close>

lemma tracked_frame [simp]:
  "st_summary (tracked clock st jid s r rc) = st_summary st"
  "st_portal (tracked clock st jid s r rc) = st_portal st"
  "st_apps_today (tracked clock st jid s r rc) = st_apps_today st"
  "st_draws (tracked clock st jid s r rc) = st_draws st"
  "st_portal_calls (tracked clock st jid s r rc) = st_portal_calls st"
  "events (st_tracker (tracked clock st jid s r rc)) =
     events (st_tracker st) @
       [\<lparr>ev_job_id = jid, ev_status = s, ev_reason = r, ev_receipt_id = rc,
         ev_timestamp = clock (length (events (st_tracker st)))\<rparr>]"
  by (simp_all add: tracked_def track_def)

lemma portal_call_frame:
  assumes "portal_call random st app = (st1, out)"
  shows "st_tracker st1 = st_tracker st" "st_summary st1 = st_summary st"
    "st_apps_today st1 = st_apps_today st" "st_portal_calls st1 = st_portal_calls st + 1"
  using assms by (auto simp: portal_call_def split: prod.splits)

lemma skip_job_frame [simp]:
  "queued (st_summary (skip_job clock st jid r)) = queued (st_summary st)"
  "terminal (st_summary (skip_job clock st jid r)) = terminal (st_summary st) + 1"
  "events (st_tracker (skip_job clock st jid r)) =
     events (st_tracker st) @
       [\<lparr>ev_job_id = jid, ev_status = ''skipped'', ev_reason = r, ev_receipt_id = None,
         ev_timestamp = clock (length (events (st_tracker st)))\<rparr>]"
  by (simp_all add: skip_job_def terminal_def)

lemma submit_with_retry_effect:
  "queued (st_summary (submit_with_retry random clock st jid app)) = queued (st_summary st)
   \<and> terminal (st_summary (submit_with_retry random clock st jid app)) = terminal (st_summary st) + 1
   \<and> (\<exists>e. events (st_tracker (submit_with_retry random clock st jid app)) = events (st_tracker st) @ [e]
          \<and> ev_job_id e = jid \<and> ev_status e \<in> set terminal_statuses)"
proof -
  obtain st1 o1 where c1: "portal_call random st app = (st1, o1)"
    by (cases "portal_call random st app")
  note f1 = portal_call_frame[OF c1]
  show ?thesis
  proof (cases o1)
    case (Inr res)
    then show ?thesis using c1 f1
      by (simp add: submit_with_retry_def Let_def terminal_def terminal_statuses_def)
  next
    case (Inl e1)
    obtain st2 o2 where c2: "portal_call random st1 app = (st2, o2)"
      by (cases "portal_call random st1 app")
    note f2 = portal_call_frame[OF c2]
    show ?thesis
    proof (cases o2)
      case (Inr res)
      then show ?thesis using Inl c1 c2 f1 f2
        by (simp add: submit_with_retry_def Let_def terminal_def terminal_statuses_def)
    next
      case (Inl e2)
      then show ?thesis using \<open>o1 = Inl e1\<close> c1 c2 f1 f2
        by (simp add: submit_with_retry_def Let_def terminal_def terminal_statuses_def)
    qed
  qed
qed

lemma process_job_effect:
  assumes "process_job v random clock student job st = Inr st'"
  shows "queued (st_summary st') = queued (st_summary st) + 1
   \<and> terminal (st_summary st') = terminal (st_summary st) + 1
   \<and> (\<exists>e1 e2. events (st_tracker st') = events (st_tracker st) @ [e1, e2]
          \<and> ev_job_id e1 = job_id job \<and> ev_status e1 = ''queued''
          \<and> ev_job_id e2 = job_id job \<and> ev_status e2 \<in> set terminal_statuses)"
proof -
  define st1 where "st1 = (tracked clock st (job_id job) ''queued'' None None)
                  \<lparr>st_summary := (st_summary st)\<lparr>queued := queued (st_summary st) + 1\<rparr>\<rparr>"
  have q: "queued (st_summary st1) = queued (st_summary st) + 1"
    and t: "terminal (st_summary st1) = terminal (st_summary st)"
    and ev: "events (st_tracker st1) = events (st_tracker st) @
       [\<lparr>ev_job_id = job_id job, ev_status = ''queued'', ev_reason = None, ev_receipt_id = None,
         ev_timestamp = clock (length (events (st_tracker st)))\<rparr>]"
    by (simp_all add: st1_def terminal_def)
  have goal: "queued (st_summary st') = queued (st_summary st) + 1
   \<and> terminal (st_summary st') = terminal (st_summary st) + 1
   \<and> (\<exists>e1 e2. events (st_tracker st') = events (st_tracker st) @ [e1, e2]
          \<and> ev_job_id e1 = job_id job \<and> ev_status e1 = ''queued''
          \<and> ev_job_id e2 = job_id job \<and> ev_status e2 \<in> set terminal_statuses)"
    if "st' = skip_job clock st1 (job_id job) r" for r
    unfolding that using q t ev by (simp add: terminal_statuses_def)
  have goal2: "queued (st_summary st') = queued (st_summary st) + 1
   \<and> terminal (st_summary st') = terminal (st_summary st) + 1
   \<and> (\<exists>e1 e2. events (st_tracker st') = events (st_tracker st) @ [e1, e2]
          \<and> ev_job_id e1 = job_id job \<and> ev_status e1 = ''queued''
          \<and> ev_job_id e2 = job_id job \<and> ev_status e2 \<in> set terminal_statuses)"
    if "st' = submit_with_retry random clock st1 (job_id job) app" for app
    unfolding that using q t ev submit_with_retry_effect[of random clock st1 "job_id job" app]
    by auto
  from assms have "(\<exists>r. st' = skip_job clock st1 (job_id job) r)
      \<or> (\<exists>app. st' = submit_with_retry random clock st1 (job_id job) app)"
    unfolding process_job_def Let_def st1_def[symmetric]
    by (auto split: sum.splits prod.splits if_splits option.splits)
  with goal goal2 show ?thesis by blast
qed

lemma process_jobs_effect:
  "process_jobs v random clock student jobs st = Inr st' \<Longrightarrow>
   queued (st_summary st') = queued (st_summary st) + length jobs
   \<and> terminal (st_summary st') = terminal (st_summary st) + length jobs
   \<and> (\<exists>new. events (st_tracker st') = events (st_tracker st) @ new \<and> well_tracked jobs new)"
proof (induction jobs arbitrary: st)
  case Nil
  then show ?case by simp
next
  case (Cons job jobs)
  from Cons.prems obtain st1 where
    s1: "process_job v random clock student job st = Inr st1"
    and s2: "process_jobs v random clock student jobs st1 = Inr st'"
    by (auto split: sum.splits)
  from process_job_effect[OF s1] obtain e1 e2 where
    a: "queued (st_summary st1) = queued (st_summary st) + 1"
       "terminal (st_summary st1) = terminal (st_summary st) + 1"
       "events (st_tracker st1) = events (st_tracker st) @ [e1, e2]"
       "ev_job_id e1 = job_id job" "ev_status e1 = ''queued''"
       "ev_job_id e2 = job_id job" "ev_status e2 \<in> set terminal_statuses"
    by blast
  from Cons.IH[OF s2] obtain new where
    b: "queued (st_summary st') = queued (st_summary st1) + length jobs"
       "terminal (st_summary st') = terminal (st_summary st1) + length jobs"
       "events (st_tracker st') = events (st_tracker st1) @ new" "well_tracked jobs new"
    by blast
  have "events (st_tracker st') = events (st_tracker st) @ (e1 # e2 # new)
        \<and> well_tracked (job # jobs) (e1 # e2 # new)"
    using a b by simp
  then show ?case using a b by (intro conjI exI[of _ "e1 # e2 # new"]) simp_all
qed

lemma validate_jobs_length:
  "validate_jobs idx jobs_data = Inr jobs \<Longrightarrow> length jobs = length jobs_data"
  by (induction jobs_data arbitrary: idx jobs) (auto split: sum.splits)

text \<open>
  Claim C10. Whenever \<open>run_autopilot\<close> returns a result with \<open>success == true\<close>, the summary's
  queued count is the number of input job listings and equals
  \<open>skipped + submitted + retried + failed\<close>; and the events added to the tracker are, for each
  job in order, one \<open>queued\<close> event followed by exactly one event whose status is one of
  skipped, submitted, retried, failed. (A run in which the eligibility validator raises, or
  that reads \<open>min_match_score\<close> from absent constraints, raises and returns nothing.)
\<close>

theorem run_autopilot_counts:
  assumes run: "run_autopilot v random clock student_data jobs_data tracker_arg = Inr r"
    and ok: "success r"
  shows "\<exists>s t jobs new.
           summary r = Some s \<and> tracker r = Some t
           \<and> queued s = length jobs_data
           \<and> queued s = skipped s + submitted s + retried s + failed s
           \<and> validate_jobs 0 jobs_data = Inr jobs
           \<and> events t = events (get_or tracker_arg new_tracker) @ new
           \<and> well_tracked jobs new"
proof -
  from run ok obtain student jobs st where
    j: "validate_jobs 0 jobs_data = Inr jobs"
    and p: "process_jobs v random clock student jobs (initial_state (get_or tracker_arg new_tracker)) = Inr st"
    and r: "r = \<lparr>success = True, error_text = None, summary = Some (st_summary st),
                 tracker = Some (st_tracker st)\<rparr>"
    by (auto simp: run_autopilot_def failure_result_def split: sum.splits prod.splits)
  from process_jobs_effect[OF p] obtain new where
    e: "queued (st_summary st) = length jobs" "terminal (st_summary st) = length jobs"
       "events (st_tracker st) = events (get_or tracker_arg new_tracker) @ new" "well_tracked jobs new"
    by (auto simp: initial_state_def terminal_def)
  have l: "length jobs = length jobs_data" by (rule validate_jobs_length[OF j])
  show ?thesis
    using e l j r by (auto simp: terminal_def)
qed

lemma w_engine_run:
  "run_autopilot w_validator (w_draws [1 / 100, 1 / 100, 1 / 2, 1 / 100, 1 / 2]) w_clock
      (w_pack [w_bullet_dict ''a'' True]) w_jobs None
   = Inr \<lparr>success = True, error_text = None,
          summary = Some \<lparr>queued = 4, skipped = 1, submitted = 1, retried = 1, failed = 1\<rparr>,
          tracker = Some \<lparr>events =
            [\<lparr>ev_job_id = ''j1'', ev_status = ''queued'', ev_reason = None, ev_receipt_id = None,
              ev_timestamp = 0\<rparr>,
             \<lparr>ev_job_id = ''j1'', ev_status = ''failed'',
              ev_reason = Some ''Submission failed twice: Submission failed due to random rejection (sandbox mode).'',
              ev_receipt_id = None, ev_timestamp = 1\<rparr>,
             \<lparr>ev_job_id = ''j2'', ev_status = ''queued'', ev_reason = None, ev_receipt_id = None,
              ev_timestamp = 2\<rparr>,
             \<lparr>ev_job_id = ''j2'', ev_status = ''submitted'', ev_reason = None,
              ev_receipt_id = Some ''sandbox-000001'', ev_timestamp = 3\<rparr>,
             \<lparr>ev_job_id = ''j3'', ev_status = ''queued'', ev_reason = None, ev_receipt_id = None,
              ev_timestamp = 4\<rparr>,
             \<lparr>ev_job_id = ''j3'', ev_status = ''retried'', ev_reason = None,
              ev_receipt_id = Some ''sandbox-000002'', ev_timestamp = 5\<rparr>,
             \<lparr>ev_job_id = ''j4'', ev_status = ''queued'', ev_reason = None, ev_receipt_id = None,
              ev_timestamp = 6\<rparr>,
             \<lparr>ev_job_id = ''j4'', ev_status = ''skipped'',
              ev_reason = Some ''Score 0.50 < required 0.60'', ev_receipt_id = None,
              ev_timestamp = 7\<rparr>]\<rparr>\<rparr>"
  by code_simp

text \<open>
  A run over four jobs with one failed, one submitted, one retried and one skipped job.
\<close>

theorem run_autopilot_counts_witness:
  "success (projr (run_autopilot w_validator (w_draws [1 / 100, 1 / 100, 1 / 2, 1 / 100, 1 / 2]) w_clock
      (w_pack [w_bullet_dict ''a'' True]) w_jobs None))
   \<and> summary (projr (run_autopilot w_validator (w_draws [1 / 100, 1 / 100, 1 / 2, 1 / 100, 1 / 2]) w_clock
      (w_pack [w_bullet_dict ''a'' True]) w_jobs None))
      = Some \<lparr>queued = 4, skipped = 1, submitted = 1, retried = 1, failed = 1\<rparr>
   \<and> length w_jobs = 4"
proof -
  let ?r = "\<lparr>success = True, error_text = None,
          summary = Some \<lparr>queued = 4, skipped = 1, submitted = 1, retried = 1, failed = 1\<rparr>,
          tracker = Some \<lparr>events =
            [\<lparr>ev_job_id = ''j1'', ev_status = ''queued'', ev_reason = None, ev_receipt_id = None,
              ev_timestamp = 0\<rparr>,
             \<lparr>ev_job_id = ''j1'', ev_status = ''failed'',
              ev_reason = Some ''Submission failed twice: Submission failed due to random rejection (sandbox mode).'',
              ev_receipt_id = None, ev_timestamp = 1\<rparr>,
             \<lparr>ev_job_id = ''j2'', ev_status = ''queued'', ev_reason = None, ev_receipt_id = None,
              ev_timestamp = 2\<rparr>,
             \<lparr>ev_job_id = ''j2'', ev_status = ''submitted'', ev_reason = None,
              ev_receipt_id = Some ''sandbox-000001'', ev_timestamp = 3\<rparr>,
             \<lparr>ev_job_id = ''j3'', ev_status = ''queued'', ev_reason = None, ev_receipt_id = None,
              ev_timestamp = 4\<rparr>,
             \<lparr>ev_job_id = ''j3'', ev_status = ''retried'', ev_reason = None,
              ev_receipt_id = Some ''sandbox-000002'', ev_timestamp = 5\<rparr>,
             \<lparr>ev_job_id = ''j4'', ev_status = ''queued'', ev_reason = None, ev_receipt_id = None,
              ev_timestamp = 6\<rparr>,
             \<lparr>ev_job_id = ''j4'', ev_status = ''skipped'',
              ev_reason = Some ''Score 0.50 < required 0.60'', ev_receipt_id = None,
              ev_timestamp = 7\<rparr>]\<rparr>\<rparr>"
  have ok: "success ?r" by simp
  from run_autopilot_counts[OF w_engine_run ok] obtain s where
    s: "summary ?r = Some s" "queued s = length w_jobs"
       "queued s = skipped s + submitted s + retried s + failed s"
    by blast
  from s(1) have "s = \<lparr>queued = 4, skipped = 1, submitted = 1, retried = 1, failed = 1\<rparr>" by simp
  with s(2) have l: "length w_jobs = 4" by simp
  show ?thesis unfolding w_engine_run using l by simp
qed

lemma missing_application_of [simp]: "missing_fields (application_of student jid content) = []"
  by (simp add: missing_fields_def application_of_def required_fields_def)









section \<open>Properties of the engine gateway\<close>









text \<open>
  A flag that is truthy without being a boolean passes the gateway's check, as it passes the
  snapshot model's. The engine's schema, where the flag is a \<open>StrictBool\<close>, then refuses the
  pack, and the gateway returns a failure result; no run is created.
\<close>

lemma gateway_truthy_flag_run:
  "validate_and_execute get_current_approved
     (\<lambda>pack jobs. run_autopilot w_validator (w_draws []) w_clock pack jobs None) w_db_flag 7 [''j1'']
   = (w_db_flag,
      Inr \<lparr>g_success = False, g_run_id = None, g_summary = None,
           g_error = Some (''Student profile schema validation failed: ''
                           @ ''Input should be a valid boolean; for StudentArtifactPack''),
           g_approved_snapshot_id = ''s1''\<rparr>)"
  by code_simp

section \<open>The gateway after a successful engine run\<close>


text \<open>
  The job dicts that the gateway reads from the store carry five keys that \<open>JobListing\<close>
  forbids, so the repository's engine rejects the first of them and never reports success
  on jobs that come from the store.
\<close>

lemma store_jobs_rejected:
  assumes "resolve_jobs db job_ids \<noteq> []"
  shows "\<exists>e. validate_jobs 0 (resolve_jobs db job_ids) = Inl (0, e)"
proof -
  from assms obtain j js where c: "resolve_jobs db job_ids = j # js"
    by (cases "resolve_jobs db job_ids") auto
  then have "j \<in> set (resolve_jobs db job_ids)" by simp
  then have "jd_extra_keys j \<noteq> []"
    by (auto simp: resolve_jobs_def get_job_by_id_def split: option.splits)
  then show ?thesis unfolding c by (simp add: new_JobListing_def)
qed

lemma engine_rejects_store_jobs:
  assumes "resolve_jobs db job_ids \<noteq> []"
    and "run_autopilot v random clock pack (resolve_jobs db job_ids) tr = Inr result"
  shows "\<not> success result"
proof -
  from store_jobs_rejected[OF assms(1)] obtain e where
    "validate_jobs 0 (resolve_jobs db job_ids) = Inl (0, e)" by blast
  with assms(2) show ?thesis
    by (auto simp: run_autopilot_def failure_result_def Let_def split: sum.splits)
qed






section \<open>What \_apply\_user\_verifications does to the draft\<close>

lemma w_confirmation_valid:
  "validate_user_confirmation (w_confirmation [w_bv ''project_0_bullet_0'' True]) w_draft_one = Inr ()"
  by code_simp

text \<open>
  Claim C5, which the code does not meet. The draft \<open>w_draft_one\<close> wraps a pack with one
  project and one bullet whose \<open>verified\<close> flag is false; its objects are in \<open>w_store\<close>, the
  pack at address 0. The confirmation verifies that bullet and passes the validation of
  \<open>submit_for_approval\<close>, which then calls \<open>_apply_user_verifications\<close> on the draft's pack.
  The call returns a new dict, at address 5, whose \<open>projects\<close> entry refers to the same list
  as the draft's; after the call the bullet of the draft's own pack, read through address 0,
  has \<open>verified\<close> true.
\<close>

theorem apply_user_verifications_mutates_draft:
  "validate_user_confirmation (w_confirmation [w_bv ''project_0_bullet_0'' True]) w_draft_one = Inr ()
   \<and> verified_flag w_store 0 0 0 = Some (PVal (PyBool False))
   \<and> map_sum id snd (apply_user_verifications_in_store w_store 0
                       (w_confirmation [w_bv ''project_0_bullet_0'' True])) = Inr 5
   \<and> map_option (\<lambda>obj. case obj of PDict items \<Rightarrow> map_of items ''projects'' | PList xs \<Rightarrow> None)
       (objects (fst (projr (apply_user_verifications_in_store w_store 0
                       (w_confirmation [w_bv ''project_0_bullet_0'' True])))) 5)
     = Some (Some (PRef 1))
   \<and> map_option (\<lambda>obj. case obj of PDict items \<Rightarrow> map_of items ''projects'' | PList xs \<Rightarrow> None)
       (objects (fst (projr (apply_user_verifications_in_store w_store 0
                       (w_confirmation [w_bv ''project_0_bullet_0'' True])))) 0)
     = Some (Some (PRef 1))
   \<and> verified_flag (fst (projr (apply_user_verifications_in_store w_store 0
                       (w_confirmation [w_bv ''project_0_bullet_0'' True])))) 5 0 0
     = Some (PVal (PyBool True))
   \<and> verified_flag (fst (projr (apply_user_verifications_in_store w_store 0
                       (w_confirmation [w_bv ''project_0_bullet_0'' True])))) 0 0 0
     = Some (PVal (PyBool True))"
  by (intro conjI) (rule w_confirmation_valid, code_simp+)

end
